theory Spec2Isabelle
  imports Complex_Main
begin

section \<open>Numbers and vectors\<close>

text \<open>
  The program computes with JavaScript numbers. Finite values are modelled as
  \<open>real\<close>; rounding, overflow and signed zeros are abstracted away. The special values
  are modelled where the code can produce or receive them: \<open>jsnum\<close> adds the two
  infinities and NaN to the finite numbers.
\<close>

datatype jsnum = Num real | PosInf | NegInf | NaN

definition sign :: "real \<Rightarrow> real" where
  "sign x = (if x > 0 then 1 else if x < 0 then -1 else 0)"

text \<open>The sign of a value that is not NaN, as a real.\<close>

fun js_sgn :: "jsnum \<Rightarrow> real" where
  "js_sgn (Num a) = sign a"
| "js_sgn PosInf = 1"
| "js_sgn NegInf = -1"
| "js_sgn NaN = 0"

fun js_neg :: "jsnum \<Rightarrow> jsnum" where
  "js_neg (Num a) = Num (- a)"
| "js_neg PosInf = NegInf"
| "js_neg NegInf = PosInf"
| "js_neg NaN = NaN"

fun js_add :: "jsnum \<Rightarrow> jsnum \<Rightarrow> jsnum" where
  "js_add (Num a) (Num b) = Num (a + b)"
| "js_add NaN b = NaN"
| "js_add a NaN = NaN"
| "js_add PosInf NegInf = NaN"
| "js_add NegInf PosInf = NaN"
| "js_add PosInf b = PosInf"
| "js_add NegInf b = NegInf"
| "js_add a PosInf = PosInf"
| "js_add a NegInf = NegInf"

definition js_sub :: "jsnum \<Rightarrow> jsnum \<Rightarrow> jsnum" where
  "js_sub a b = js_add a (js_neg b)"

text \<open>An infinity of the sign of \<open>s\<close>, NaN for \<open>s = 0\<close> (infinity times zero).\<close>

definition signedInf :: "real \<Rightarrow> jsnum" where
  "signedInf s = (if s > 0 then PosInf else if s < 0 then NegInf else NaN)"

fun js_mul :: "jsnum \<Rightarrow> jsnum \<Rightarrow> jsnum" where
  "js_mul (Num a) (Num b) = Num (a * b)"
| "js_mul NaN b = NaN"
| "js_mul a NaN = NaN"
| "js_mul a b = signedInf (js_sgn a * js_sgn b)"

text \<open>
  Division: a finite nonzero value over zero is an infinity (zero is taken as \<open>+0\<close>),
  zero over zero and infinity over infinity are NaN.
\<close>

fun js_div :: "jsnum \<Rightarrow> jsnum \<Rightarrow> jsnum" where
  "js_div (Num a) (Num b) = (if b = 0 then signedInf a else Num (a / b))"
| "js_div NaN b = NaN"
| "js_div a NaN = NaN"
| "js_div (Num a) b = Num 0"
| "js_div a (Num b) = signedInf (js_sgn a * (if b < 0 then -1 else 1))"
| "js_div a b = NaN"

fun js_less :: "jsnum \<Rightarrow> jsnum \<Rightarrow> bool" where
  "js_less (Num a) (Num b) = (a < b)"
| "js_less NaN b = False"
| "js_less a NaN = False"
| "js_less NegInf b = (b \<noteq> NegInf)"
| "js_less a PosInf = (a \<noteq> PosInf)"
| "js_less a b = False"


text \<open>\<open>Math.min\<close> and \<open>Math.max\<close> of two arguments: NaN if either is NaN.\<close>

definition Math_min :: "jsnum \<Rightarrow> jsnum \<Rightarrow> jsnum" where
  "Math_min a b = (if a = NaN \<or> b = NaN then NaN else if js_less b a then b else a)"

definition Math_max :: "jsnum \<Rightarrow> jsnum \<Rightarrow> jsnum" where
  "Math_max a b = (if a = NaN \<or> b = NaN then NaN else if js_less a b then b else a)"

text \<open>
  \<open>Math.pow\<close> on finite arguments: a negative base with a non-integer exponent is NaN,
  zero to a negative power is infinite.
\<close>

definition Math_pow :: "real \<Rightarrow> real \<Rightarrow> jsnum" where
  "Math_pow x y =
     (if y = 0 then Num 1
      else if x > 0 then Num (x powr y)
      else if x = 0 then (if y > 0 then Num 0 else PosInf)
      else if y = of_int \<lfloor>y\<rfloor> then Num (power_int x \<lfloor>y\<rfloor>)
      else NaN)"



text \<open>\<open>THREE.Vector3\<close> with the operations the physics and world modules call.\<close>

record vec3 =
  vx :: real
  vy :: real
  vz :: real

definition Vector3 :: "real \<Rightarrow> real \<Rightarrow> real \<Rightarrow> vec3" where
  "Vector3 a b c = \<lparr>vx = a, vy = b, vz = c\<rparr>"

definition vadd :: "vec3 \<Rightarrow> vec3 \<Rightarrow> vec3" where
  "vadd a b = Vector3 (vx a + vx b) (vy a + vy b) (vz a + vz b)"

definition vsub :: "vec3 \<Rightarrow> vec3 \<Rightarrow> vec3" where
  "vsub a b = Vector3 (vx a - vx b) (vy a - vy b) (vz a - vz b)"

definition multiplyScalar :: "vec3 \<Rightarrow> real \<Rightarrow> vec3" where
  "multiplyScalar a s = Vector3 (vx a * s) (vy a * s) (vz a * s)"

definition vdot :: "vec3 \<Rightarrow> vec3 \<Rightarrow> real" where
  "vdot a b = vx a * vx b + vy a * vy b + vz a * vz b"

definition vlength :: "vec3 \<Rightarrow> real" where
  "vlength a = sqrt (vx a * vx a + vy a * vy a + vz a * vz a)"

text \<open>\<open>normalize\<close> divides by \<open>length() || 1\<close>.\<close>

definition normalize :: "vec3 \<Rightarrow> vec3" where
  "normalize a = (let l = vlength a in
     if l = 0 then a else Vector3 (vx a / l) (vy a / l) (vz a / l))"

text \<open>\<open>v.applyMatrix4(new THREE.Matrix4().makeRotationY(theta))\<close>.\<close>

definition applyRotationY :: "real \<Rightarrow> vec3 \<Rightarrow> vec3" where
  "applyRotationY theta a =
     Vector3 (cos theta * vx a + sin theta * vz a) (vy a) (cos theta * vz a - sin theta * vx a)"

text \<open>A vector whose components may be any number, and a vector of finite numbers as one.\<close>

record jsvec3 =
  jx :: jsnum
  jy :: jsnum
  jz :: jsnum


text \<open>\<open>THREE.MathUtils.lerp\<close>.\<close>

definition lerp :: "real \<Rightarrow> real \<Rightarrow> real \<Rightarrow> real" where
  "lerp a b t = (1 - t) * a + t * b"

section \<open>Physics constants (physics.js)\<close>

definition MAX_SPEED :: real where "MAX_SPEED = 5000"
definition ACCELERATION :: real where "ACCELERATION = 2000"
definition DECELERATION :: real where "DECELERATION = 800"
definition ENGINE_BRAKING :: real where "ENGINE_BRAKING = 1.0"
definition DRAG_COEFFICIENT :: real where "DRAG_COEFFICIENT = 0.00015"
definition OFF_ROAD_FRICTION :: real where "OFF_ROAD_FRICTION = 0.03"
definition OFF_ROAD_DAMAGE :: real where "OFF_ROAD_DAMAGE = 10"
definition GRAVITY :: real where "GRAVITY = 9.8"
definition MAX_STEERING_ANGLE :: real where "MAX_STEERING_ANGLE = pi / 4"
definition STEERING_SPEED :: real where "STEERING_SPEED = 2.5"
definition STEERING_RETURN_SPEED :: real where "STEERING_RETURN_SPEED = 5.0"
definition WHEEL_BASE :: real where "WHEEL_BASE = 6"
definition WHEEL_TRACK :: real where "WHEEL_TRACK = 4"
definition SUSPENSION_STIFFNESS :: real where "SUSPENSION_STIFFNESS = 50"
definition SUSPENSION_DAMPING :: real where "SUSPENSION_DAMPING = 4"
definition SUSPENSION_TRAVEL :: real where "SUSPENSION_TRAVEL = 0.5"
definition WHEEL_RADIUS :: real where "WHEEL_RADIUS = 0.8"
definition WHEEL_MASS :: real where "WHEEL_MASS = 20"
definition CHASSIS_MASS :: real where "CHASSIS_MASS = 400"
definition TOTAL_MASS :: real where "TOTAL_MASS = CHASSIS_MASS + WHEEL_MASS * 4"

section \<open>Vehicle state (class Vehicle)\<close>

text \<open>The input snapshot of the input module: five independent flags.\<close>

record input =
  accelerate :: bool
  brakeKey :: bool
  reverseKey :: bool
  turnLeft :: bool
  turnRight :: bool

record wheel =
  wheelPosition :: vec3
  contactPoint :: vec3
  suspensionForce :: real
  compression :: real
  onGround :: bool
  isFront :: bool

text \<open>\<open>this.debug.forces\<close>, written at the end of \<open>calculateForces\<close>.\<close>

record debugForces =
  tractiveForce :: real
  dragForce :: real
  rollingResistance :: real
  totalLongitudinalForce :: real
  debugAngularAcceleration :: real

text \<open>
  The fields of \<open>Vehicle\<close> that the physics reads or writes. \<open>rotationY\<close> is
  \<open>this.rotation.y\<close>, the only Euler component the physics touches. Of the wheel
  meshes in \<open>frontWheels\<close> and \<open>rearWheels\<close> the model keeps the two rotation
  components the physics writes (it never reads them back); the chassis mesh is left out.
  \<open>this.input\<close> is stored by \<open>update\<close> and read again only by
  \<open>checkSurfaceInteraction\<close> within the same call, which takes it as an argument here.
\<close>

record wheelMesh =
  meshRotationX :: real
  meshRotationY :: jsnum

record vehicle =
  position :: vec3
  velocity :: vec3
  acceleration :: vec3
  direction :: vec3
  right :: vec3
  up :: vec3
  rotationY :: real
  angularVelocity :: real
  speed :: real
  wheelSpeed :: real
  steeringAngle :: real
  throttle :: real
  brake :: real
  reverse :: real
  isGrounded :: bool
  isOffRoad :: bool
  wasOffRoad :: bool
  wheels :: "wheel list"
  frontWheels :: "wheelMesh list"
  rearWheels :: "wheelMesh list"
  debug :: debugForces

text \<open>
  \<open>this.angularAcceleration\<close> is not among the fields the constructor assigns. The
  property comes into being when \<open>calculateForces\<close> stores it, and \<open>integrate\<close> is the
  only method that reads it: a vehicle that carries it is a \<open>forcedVehicle\<close>.
\<close>

record forcedVehicle = vehicle +
  angularAcceleration :: real

text \<open>The state the constructor builds.\<close>

definition newWheel :: "real \<Rightarrow> real \<Rightarrow> bool \<Rightarrow> wheel" where
  "newWheel x z front =
     \<lparr>wheelPosition = Vector3 x 0 z, contactPoint = Vector3 0 0 0, suspensionForce = 0,
      compression = 0, onGround = True, isFront = front\<rparr>"

definition newVehicle :: vehicle where
  "newVehicle =
     \<lparr>position = Vector3 0 0.8 0, velocity = Vector3 0 0 0, acceleration = Vector3 0 0 0,
      direction = Vector3 0 0 1, right = Vector3 1 0 0, up = Vector3 0 1 0,
      rotationY = 0, angularVelocity = 0,
      speed = 0, wheelSpeed = 0, steeringAngle = 0, throttle = 0, brake = 0, reverse = 0,
      isGrounded = True, isOffRoad = False, wasOffRoad = False,
      wheels = [newWheel (- WHEEL_TRACK / 2) (WHEEL_BASE / 2) True,
                newWheel (WHEEL_TRACK / 2) (WHEEL_BASE / 2) True,
                newWheel (- WHEEL_TRACK / 2) (- WHEEL_BASE / 2) False,
                newWheel (WHEEL_TRACK / 2) (- WHEEL_BASE / 2) False],
      frontWheels = [], rearWheels = [],
      debug = \<lparr>tractiveForce = 0, dragForce = 0, rollingResistance = 0,
                totalLongitudinalForce = 0, debugAngularAcceleration = 0\<rparr>\<rparr>"

subsection \<open>updateControls\<close>

definition updateSteering :: "real \<Rightarrow> input \<Rightarrow> real \<Rightarrow> real" where
  "updateSteering sa inp dt =
     (if turnLeft inp then min (sa + STEERING_SPEED * dt) MAX_STEERING_ANGLE
      else if turnRight inp then max (sa - STEERING_SPEED * dt) (- MAX_STEERING_ANGLE)
      else if \<bar>sa\<bar> < STEERING_RETURN_SPEED * dt then 0
      else sa - sign sa * STEERING_RETURN_SPEED * dt)"

text \<open>
  Lines 209 and 210: the steering effectiveness factor and the effective steering angle, from
  the speed and the (already updated) steering angle.
\<close>

definition steeringSpeedFactor :: "real \<Rightarrow> jsnum" where
  "steeringSpeedFactor sp =
     Math_max (Num 0.15) (js_sub (Num 1.0) (js_mul (Math_pow (sp / MAX_SPEED) 0.7) (Num 0.85)))"

definition effectiveSteeringAngle :: "real \<Rightarrow> real \<Rightarrow> jsnum" where
  "effectiveSteeringAngle sa sp = js_mul (Num sa) (steeringSpeedFactor sp)"

text \<open>Lines 167 to 171: brake, reverse and throttle from the input flags.\<close>

definition resolveControls :: "vehicle \<Rightarrow> input \<Rightarrow> vehicle" where
  "resolveControls v inp =
     v\<lparr>brake := (if brakeKey inp then 1.0 else 0.0),
       reverse := (if reverseKey inp then 1.0 else 0.0),
       throttle := (if accelerate inp \<and> \<not> brakeKey inp then 1.0 else 0.0)\<rparr>"

definition updateControls :: "vehicle \<Rightarrow> input \<Rightarrow> real \<Rightarrow> vehicle" where
  "updateControls v inp dt =
     (let v1 = (resolveControls v inp)\<lparr>steeringAngle := updateSteering (steeringAngle v) inp dt\<rparr>;
          eff = effectiveSteeringAngle (steeringAngle v1) (speed v1)
      in v1\<lparr>frontWheels := map (\<lambda>w. w\<lparr>meshRotationY := eff\<rparr>) (frontWheels v1)\<rparr>)"

subsection \<open>updateSuspension\<close>

definition getWheelWorldPosition :: "vehicle \<Rightarrow> wheel \<Rightarrow> vec3" where
  "getWheelWorldPosition v w = vadd (applyRotationY (rotationY v) (wheelPosition w)) (position v)"

text \<open>The body of the \<open>forEach\<close> over the wheels; the ground is the plane \<open>y = 0\<close>.\<close>

definition updateWheel :: "vehicle \<Rightarrow> wheel \<Rightarrow> wheel" where
  "updateWheel v w =
     (let wheelPos = getWheelWorldPosition v w;
          restLength = WHEEL_RADIUS + SUSPENSION_TRAVEL;
          groundHeight = 0;
          compressionDistance = max 0 (restLength - (vy wheelPos - groundHeight));
          w1 = w\<lparr>compression := compressionDistance / restLength,
                 onGround := (compressionDistance > 0)\<rparr>
      in if onGround w1
         then (let springForce = compressionDistance * SUSPENSION_STIFFNESS;
                   suspensionVelocity = vy (velocity v);
                   dampingForce = suspensionVelocity * SUSPENSION_DAMPING
               in w1\<lparr>suspensionForce := springForce - dampingForce,
                      contactPoint := wheelPos\<lparr>vy := groundHeight\<rparr>\<rparr>)
         else w1\<lparr>suspensionForce := 0\<rparr>)"

definition updateSuspension :: "vehicle \<Rightarrow> vehicle" where
  "updateSuspension v =
     (let ws = map (updateWheel v) (wheels v)
      in v\<lparr>wheels := ws, isGrounded := list_ex onGround ws\<rparr>)"

subsection \<open>calculateForces\<close>

text \<open>
  The tractive force of lines 288 to 322. \<open>Math.pow (1 - speedRatio, 1.5)\<close> has a base
  in \<open>[0, 1]\<close>, where it is the real power \<open>powr\<close>.
\<close>

definition calcTractiveForce :: "vehicle \<Rightarrow> real" where
  "calcTractiveForce v =
     (if isGrounded v then
        (if throttle v > 0 \<and> speed v \<ge> -1 then
           (let speedRatio = max 0 (min 1 (speed v / MAX_SPEED));
                accelerationMultiplier = 1.8 * ((1 - speedRatio) powr 1.5) + 0.2
            in ACCELERATION * accelerationMultiplier * throttle v)
         else if brake v > 0 then
           - sign (speed v) * DECELERATION * 6.0 * brake v
         else if reverse v > 0 then
           (if speed v > 5 then - DECELERATION * 2.0 * reverse v
            else if speed v > 0 then - DECELERATION * 2.5 * reverse v
            else - ACCELERATION * 0.4 * reverse v)
         else - sign (speed v) * ENGINE_BRAKING)
      else 0)"

definition calcDragForce :: "vehicle \<Rightarrow> real" where
  "calcDragForce v = - sign (speed v) * DRAG_COEFFICIENT * speed v * speed v"

definition calcRollingResistance :: "vehicle \<Rightarrow> real" where
  "calcRollingResistance v =
     (if isGrounded v then
        (let resistanceFactor = (if isOffRoad v then OFF_ROAD_FRICTION else 0.001)
         in - sign (speed v) * resistanceFactor * \<bar>speed v\<bar>)
      else 0)"

definition calcAngularAcceleration :: "vehicle \<Rightarrow> real" where
  "calcAngularAcceleration v =
     (if isGrounded v \<and> \<bar>speed v\<bar> > 0.5 then
        (let steeringFactor = steeringAngle v / (WHEEL_BASE * 0.5);
             speedFactor = max 0.2 (min 1.0 (\<bar>speed v\<bar> / 30.0));
             directionFactor = (if speed v < 0 then -1 else 1)
         in directionFactor * steeringFactor * sqrt (\<bar>speed v\<bar> * 20) * speedFactor)
      else 0)"

text \<open>The lateral (drift) acceleration vector, when the drift condition holds.\<close>

definition calcLateralAcceleration :: "vehicle \<Rightarrow> vec3 option" where
  "calcLateralAcceleration v =
     (if isGrounded v \<and> \<bar>speed v\<bar> > 0.5 \<and>
         \<bar>steeringAngle v\<bar> > 0.25 \<and> \<bar>speed v\<bar> > MAX_SPEED * 0.6 then
        (let tractionLoss = min 0.7 ((\<bar>steeringAngle v\<bar> * \<bar>speed v\<bar>) /
                                     (MAX_STEERING_ANGLE * MAX_SPEED * 1.5));
             speedDampening = 1.0 / (1.0 + \<bar>speed v\<bar> / 2000);
             driftAcceleration = \<bar>speed v\<bar> * tractionLoss * 0.4 * speedDampening;
             steeringSign = sign (steeringAngle v);
             directionMultiplier = (if speed v < 0 then -1 else 1)
         in Some (multiplyScalar (right v) (steeringSign * directionMultiplier * driftAcceleration)))
      else None)"

definition calculateForces :: "vehicle \<Rightarrow> forcedVehicle" where
  "calculateForces v =
     (let acc0 = Vector3 0 0 0;
          acc1 = (if \<not> isGrounded v then acc0\<lparr>vy := vy acc0 - GRAVITY\<rparr> else acc0);
          tractive = calcTractiveForce v;
          drag = calcDragForce v;
          rolling = calcRollingResistance v;
          total = tractive + drag + rolling;
          forwardAcceleration = total / TOTAL_MASS;
          acc2 = vadd acc1 (multiplyScalar (direction v) forwardAcceleration);
          totalAngularAcceleration = calcAngularAcceleration v;
          acc3 = (case calcLateralAcceleration v of None \<Rightarrow> acc2 | Some l \<Rightarrow> vadd acc2 l)
      in vehicle.extend
           (v\<lparr>acceleration := acc3,
              debug := \<lparr>tractiveForce = tractive, dragForce = drag, rollingResistance = rolling,
                        totalLongitudinalForce = total,
                        debugAngularAcceleration = totalAngularAcceleration\<rparr>\<rparr>)
           (forcedVehicle.fields totalAngularAcceleration))"

subsection \<open>integrate\<close>

text \<open>
  \<open>integrate\<close> on finite numbers, in exact arithmetic: the rounding of the doubles is
  not modelled. Where the exact height is 0.5 and the doubles round it to a value just below
  (as for \<open>0.7 + (-2 * 0.1)\<close>), the code clamps and the model does not; the height is 0.5
  either way, the vertical velocity is 0 in the code and unchanged in the model. The stored
  angular acceleration is not read again before the next \<open>calculateForces\<close> overwrites it,
  so the result is a plain vehicle.
\<close>

definition integrate :: "forcedVehicle \<Rightarrow> real \<Rightarrow> vehicle" where
  "integrate v dt =
     (let forwardSpeed = vdot (velocity v) (direction v);
          verticalVelocity = vy (velocity v);
          forwardAccel = vdot (acceleration v) (direction v);
          newForwardSpeed = forwardSpeed + forwardAccel * dt;
          lateralVelocity =
            multiplyScalar (vsub (velocity v) (multiplyScalar (direction v) forwardSpeed)) 0.98;
          vel0 = vadd (multiplyScalar (direction v) newForwardSpeed) lateralVelocity;
          vel1 = vel0\<lparr>vy := verticalVelocity + vy (acceleration v) * dt\<rparr>;
          angVel = angularVelocity v + angularAcceleration v * dt;
          rotY = rotationY v + angVel * dt;
          pos1 = vadd (position v) (multiplyScalar vel1 dt);
          clamped = (vy pos1 < 0.5);
          pos2 = (if clamped then pos1\<lparr>vy := 0.5\<rparr> else pos1);
          vel2 = (if clamped \<and> vy vel1 < 0 then vel1\<lparr>vy := 0\<rparr> else vel1)
      in vehicle.truncate
           (v\<lparr>velocity := vel2, speed := newForwardSpeed, angularVelocity := angVel * 0.97,
              rotationY := rotY, position := pos2\<rparr>))"

subsection \<open>checkSurfaceInteraction\<close>

text \<open>
  A road segment as the physics sees it: the mesh's position and its rotation about the
  vertical axis (\<open>rotation.y\<close>; the other two Euler angles only orient the mesh for
  rendering). The road container sits at the origin of the scene and is never moved, so
  \<open>getWorldPosition\<close> of a segment is its own position.
\<close>

record segment =
  segPosition :: vec3
  segRotationY :: real

text \<open>
  The \<open>world\<close> argument of \<open>update\<close>: \<open>None\<close> for a missing world, and inside it
  \<open>None\<close> for a missing \<open>roadSegments\<close>; \<open>hasEvents\<close> says whether \<open>world.events\<close>
  is there (its \<open>trigger\<close> only notifies listeners).
\<close>

record worldView =
  roadSegmentsView :: "segment list option"
  hasEvents :: bool

definition getWorldPosition :: "segment \<Rightarrow> vec3" where
  "getWorldPosition s = segPosition s"

text \<open>
  The search loop for the closest segment along z; the accumulator is
  \<open>(closestSegment, closestZDistance)\<close>, \<open>None\<close> standing for \<open>(null, Infinity)\<close>.
\<close>

fun closestSegmentLoop :: "segment list \<Rightarrow> real \<Rightarrow> (segment \<times> real) option \<Rightarrow> (segment \<times> real) option" where
  "closestSegmentLoop [] pz acc = acc"
| "closestSegmentLoop (s # ss) pz acc =
     (let zDistance = \<bar>vz (getWorldPosition s) - pz\<bar>
      in if (case acc of None \<Rightarrow> True | Some (c, d) \<Rightarrow> zDistance < d)
         then closestSegmentLoop ss pz (Some (s, zDistance))
         else closestSegmentLoop ss pz acc)"

definition ROAD_HALF_WIDTH :: real where "ROAD_HALF_WIDTH = 15"

text \<open>The pair \<open>(isOffRoad, closestSegmentX)\<close> computed by the first half of the method.\<close>

definition surfaceTest :: "vehicle \<Rightarrow> worldView option \<Rightarrow> bool \<times> real" where
  "surfaceTest v world =
     (case (case world of None \<Rightarrow> None | Some w \<Rightarrow> roadSegmentsView w) of
        Some segs \<Rightarrow>
          (case closestSegmentLoop segs (vz (position v)) None of
             None \<Rightarrow> (True, 0)
           | Some (closestSegment, closestZDistance) \<Rightarrow>
               if closestZDistance < 30 then
                 (let segmentPos = getWorldPosition closestSegment;
                      localPoint0 = vsub (position v) segmentPos;
                      localPoint = (if segRotationY closestSegment \<noteq> 0
                                    then applyRotationY (- segRotationY closestSegment) localPoint0
                                    else localPoint0);
                      distanceFromCenter = \<bar>vx localPoint\<bar>
                  in (distanceFromCenter > ROAD_HALF_WIDTH, vx localPoint))
               else (True, 0))
      | None \<Rightarrow> (\<bar>vx (position v)\<bar> > ROAD_HALF_WIDTH, vx (position v)))"

definition checkSurfaceInteraction :: "vehicle \<Rightarrow> input \<Rightarrow> worldView option \<Rightarrow> real \<Rightarrow> vehicle" where
  "checkSurfaceInteraction v inp world dt =
     (let wasOff = isOffRoad v;
          (off, closestSegmentX) = surfaceTest v world;
          v1 = v\<lparr>isOffRoad := off\<rparr>;
          v4 = (if off then
                  (let v2 = v1\<lparr>speed := speed v1 * 0.9998\<rparr>;
                       v3 = (if \<not> turnLeft inp \<and> \<not> turnRight inp then
                               (let roadForce = - sign closestSegmentX * 0.0005 * dt * min 5 (speed v2)
                                in v2\<lparr>steeringAngle := lerp (steeringAngle v2) roadForce 0.01\<rparr>)
                             else v2)
                   in if \<not> wasOff \<and> \<bar>speed v3\<bar> > 20 then
                        (let speedReduction = min (\<bar>speed v3\<bar> * 0.005) (OFF_ROAD_DAMAGE / 4)
                         in v3\<lparr>speed := speed v3 * ((\<bar>speed v3\<bar> - speedReduction) / \<bar>speed v3\<bar>),
                               velocity := (velocity v3)\<lparr>vy := vy (velocity v3) + 0.3\<rparr>\<rparr>)
                      else v3)
                else v1)
      in v4\<lparr>wasOffRoad := isOffRoad v4\<rparr>)"

subsection \<open>updateWheelRotation, updateVehicleVectors\<close>

definition updateWheelRotation :: "vehicle \<Rightarrow> real \<Rightarrow> vehicle" where
  "updateWheelRotation v dt =
     (let ws = speed v / WHEEL_RADIUS;
          rotationAmount = ws * dt;
          spin = (\<lambda>w. w\<lparr>meshRotationX := meshRotationX w - rotationAmount\<rparr>)
      in v\<lparr>wheelSpeed := ws, frontWheels := map spin (frontWheels v),
            rearWheels := map spin (rearWheels v)\<rparr>)"

definition updateVehicleVectors :: "vehicle \<Rightarrow> vehicle" where
  "updateVehicleVectors v =
     v\<lparr>direction := normalize (applyRotationY (rotationY v) (Vector3 0 0 1)),
       right := normalize (applyRotationY (rotationY v) (Vector3 1 0 0)),
       up := normalize (Vector3 0 1 0)\<rparr>"

subsection \<open>update\<close>

text \<open>
  Line 123, \<open>dt = Math.min(deltaTime, 0.1)\<close>: the delta time every stage of the update
  runs with, for any JavaScript number the caller passes.
\<close>

definition capDeltaTime :: "jsnum \<Rightarrow> jsnum" where
  "capDeltaTime deltaTime = Math_min deltaTime (Num 0.1)"

text \<open>Lines 125 to 130: the initial boost.\<close>

definition applyInitialBoost :: "vehicle \<Rightarrow> input \<Rightarrow> vehicle" where
  "applyInitialBoost v inp =
     (if speed v < 0.1 \<and> accelerate inp
      then v\<lparr>speed := 30.0, velocity := Vector3 0 0 30.0\<rparr>
      else v)"

text \<open>Lines 132 to 151, run with the capped delta time on the boosted state.\<close>

definition updateStages :: "vehicle \<Rightarrow> input \<Rightarrow> real \<Rightarrow> worldView option \<Rightarrow> vehicle" where
  "updateStages v inp dt world =
     updateVehicleVectors
       (updateWheelRotation
          (checkSurfaceInteraction
             (integrate (calculateForces (updateSuspension (updateControls v inp dt))) dt)
             inp world dt)
          dt)"

text \<open>
  \<open>update\<close> on a finite delta time, where line 123 is the minimum of two reals
  (lemma \<open>capDeltaTime_Num\<close> below).
\<close>

definition update :: "vehicle \<Rightarrow> input \<Rightarrow> real \<Rightarrow> worldView option \<Rightarrow> vehicle" where
  "update v inp deltaTime world =
     (let v0 = v\<lparr>wasOffRoad := isOffRoad v\<rparr>;
          dt = min deltaTime 0.1
      in updateStages (applyInitialBoost v0 inp) inp dt world)"

text \<open>The boolean \<open>update\<close> returns: whether any significant state changed.\<close>

definition updateReturns :: "vehicle \<Rightarrow> input \<Rightarrow> real \<Rightarrow> worldView option \<Rightarrow> bool" where
  "updateReturns v inp deltaTime world =
     (let v' = update v inp deltaTime world
      in position v \<noteq> position v' \<or> wasOffRoad v' \<noteq> isOffRoad v' \<or> speed v' > 0.1)"

subsection \<open>update for any delta time\<close>

text \<open>
  \<open>update\<close> above takes a finite \<open>deltaTime\<close>. The caller can pass any number, and line
  123 lets NaN and negative infinity through. The definitions of this subsection follow the
  delta time from line 123 to the end of \<open>integrate\<close> in JavaScript's arithmetic, where a
  comparison with NaN is false. The vehicle they start from holds finite numbers. The stages
  after \<open>integrate\<close> do not assign \<open>position\<close>.
\<close>











subsection \<open>collideWithObstacle\<close>

text \<open>
  The random source of the runtime: \<open>Math.random\<close> hands out the next number of a
  sequence of draws from \<open>[0, 1)\<close> and moves on. Every call of \<open>Math.random\<close> in the
  program goes through \<open>Math_random\<close>.
\<close>

record runtime =
  randomDraws :: "nat \<Rightarrow> real"
  drawsTaken :: nat

definition Math_random :: "runtime \<Rightarrow> real \<times> runtime" where
  "Math_random rt = (randomDraws rt (drawsTaken rt), rt\<lparr>drawsTaken := drawsTaken rt + 1\<rparr>)"

text \<open>
  The fields \<open>collideWithObstacle\<close> writes, and what it returns. The velocity is scaled
  by the quotient \<open>speed / oldSpeed\<close>, which need not be a finite number, so its
  components are \<open>jsnum\<close>s.
\<close>

record collisionOutcome =
  newSpeed :: real
  newVelocity :: jsvec3
  newAngularVelocity :: real
  newPosition :: vec3
  speedReduction :: real
  effects :: "string list"

definition collideWithObstacle :: "vehicle \<Rightarrow> runtime \<Rightarrow> collisionOutcome \<times> runtime" where
  "collideWithObstacle v rt =
     (let reduction = min \<bar>speed v\<bar> 60;
          oldSpeed = speed v;
          speed' = sign (speed v) * max 0 (\<bar>speed v\<bar> - reduction);
          ratio = js_div (Num speed') (Num oldSpeed);
          scaled = \<lparr>jx = js_mul (Num (vx (velocity v))) ratio,
                    jy = js_mul (Num (vy (velocity v))) ratio,
                    jz = js_mul (Num (vz (velocity v))) ratio\<rparr>;
          (r, rt') = Math_random rt
      in (\<lparr>newSpeed = speed',
           newVelocity = scaled\<lparr>jy := Num 0.5\<rparr>,
           newAngularVelocity = angularVelocity v + (r - 0.5) * 0.2,
           newPosition = (if vy (position v) < 0.5 then (position v)\<lparr>vy := 0.5\<rparr> else position v),
           speedReduction = reduction,
           effects = [''heavyGlitch'', ''screenShake'', ''flashRed'']\<rparr>, rt'))"

subsection \<open>Runs of update\<close>






text \<open>Inputs and states used as examples.\<close>

definition noKeys :: input where
  "noKeys = \<lparr>accelerate = False, brakeKey = False, reverseKey = False,
             turnLeft = False, turnRight = False\<rparr>"

definition accelerateOnly :: input where
  "accelerateOnly = noKeys\<lparr>accelerate := True\<rparr>"

definition accelerateAndBrake :: input where
  "accelerateAndBrake = noKeys\<lparr>accelerate := True, brakeKey := True\<rparr>"

text \<open>The vehicle as the game places it at the start: the constructor's state at height 1.\<close>

definition startVehicle :: vehicle where
  "startVehicle = updateVehicleVectors (newVehicle\<lparr>position := Vector3 0 1.0 0\<rparr>)"

text \<open>The start vehicle reversing at 10 units per second, with one front wheel mesh.\<close>

definition reversing :: vehicle where
  "reversing = startVehicle\<lparr>speed := - 10, velocity := Vector3 0 0 (- 10),
     frontWheels := [\<lparr>meshRotationX = 0, meshRotationY = Num 0\<rparr>]\<rparr>"


section \<open>The road (class GameWorld)\<close>

definition ROAD_SEGMENTS :: nat where "ROAD_SEGMENTS = 200"
definition ROAD_LENGTH :: real where "ROAD_LENGTH = 2000"
definition SEGMENT_LENGTH :: real where "SEGMENT_LENGTH = ROAD_LENGTH / real ROAD_SEGMENTS"
definition LANE_WIDTH :: real where "LANE_WIDTH = 10"

text \<open>
  JavaScript's \<open>a % b\<close> on finite numbers with \<open>b \<noteq> 0\<close>: the remainder of the
  division truncated towards zero, so the result has the sign of \<open>a\<close>.
\<close>

definition js_rem :: "real \<Rightarrow> real \<Rightarrow> real" where
  "js_rem a b = a - b * of_int (if a / b \<ge> 0 then \<lfloor>a / b\<rfloor> else - \<lfloor>- (a / b)\<rfloor>)"

subsection \<open>The track pattern\<close>

text \<open>The control points \<open>{pos, turn}\<close> of the track definition.\<close>

definition trackPoints :: "(real \<times> real) list" where
  "trackPoints =
     [(0.0, 0), (0.15, -1.0), (0.3, 0), (0.35, 0), (0.5, 1.0),
      (0.65, 0), (0.7, 0), (0.85, -0.6), (1.0, 0)]"

text \<open>
  The loop that looks for the two control points around a pattern position: the first pair of
  neighbours with \<open>pos\<^sub>i \<le> p < pos\<^sub>i\<^sub>+\<^sub>1\<close>, if there is one.
\<close>

fun findControlPoints :: "(real \<times> real) list \<Rightarrow> real \<Rightarrow> ((real \<times> real) \<times> (real \<times> real)) option" where
  "findControlPoints (a # b # rest) p =
     (if p \<ge> fst a \<and> p < fst b then Some (a, b) else findControlPoints (b # rest) p)"
| "findControlPoints ps p = None"

definition cubicEase :: "real \<Rightarrow> real" where
  "cubicEase t = t * t * (3 - 2 * t)"

text \<open>
  From a pattern position to the lateral offset. The source has this code three times, word
  for word (in \<open>createRoad\<close>, \<open>positionRoadSegment\<close> and \<open>getTrackXPositionAtZ\<close>);
  without a bracketing pair, \<open>p1\<close> and \<open>p2\<close> keep their initial values, the first and
  the last control point.
\<close>

definition trackXOffset :: "real \<Rightarrow> real" where
  "trackXOffset patternPosition =
     (let (p1, p2) = (case findControlPoints trackPoints patternPosition of
                        Some b \<Rightarrow> b
                      | None \<Rightarrow> (hd trackPoints, last trackPoints));
          segmentProgress = (patternPosition - fst p1) / (fst p2 - fst p1);
          easeSegmentProgress = cubicEase segmentProgress;
          turnValue = snd p1 + (snd p2 - snd p1) * easeSegmentProgress
      in turnValue * LANE_WIDTH * 5.0)"

definition getTrackXPositionAtZ :: "real \<Rightarrow> real" where
  "getTrackXPositionAtZ zPosition = trackXOffset (js_rem zPosition ROAD_LENGTH / ROAD_LENGTH)"

definition positionRoadSegment :: "segment \<Rightarrow> real \<Rightarrow> real \<Rightarrow> segment" where
  "positionRoadSegment seg playerZ segmentZ =
     (let trackPosition = segmentZ;
          patternPosition = js_rem trackPosition ROAD_LENGTH / ROAD_LENGTH
      in seg\<lparr>segRotationY := 0,
              segPosition := (segPosition seg)\<lparr>vx := trackXOffset patternPosition\<rparr>\<rparr>)"

subsection \<open>Road state\<close>

text \<open>
  The fields of \<open>GameWorld\<close> that the road maintenance reads or writes.
  \<open>initialBoundsCalculated\<close> starts out undefined, which is falsy.
\<close>

record world =
  roadSegments :: "segment list"
  roadZMin :: real
  roadZMax :: real
  lastRecycleFrame :: nat
  updateCount :: nat
  initialBoundsCalculated :: bool
  playerZPosition :: real

definition createSegment :: "nat \<Rightarrow> segment" where
  "createSegment i =
     (let patternPosition = js_rem (real i * SEGMENT_LENGTH) ROAD_LENGTH / ROAD_LENGTH
      in \<lparr>segPosition = Vector3 (trackXOffset patternPosition) 0 (real i * SEGMENT_LENGTH),
          segRotationY = 0\<rparr>)"

text \<open>The state after the constructor, \<open>createRoad\<close> and the rest of \<open>init\<close>.\<close>

definition createRoad :: world where
  "createRoad =
     (let initialSegments = ROAD_SEGMENTS * 5
      in \<lparr>roadSegments = map createSegment [0..<initialSegments],
          roadZMin = 0,
          roadZMax = real initialSegments * SEGMENT_LENGTH,
          lastRecycleFrame = 0, updateCount = 0, initialBoundsCalculated = False,
          playerZPosition = 0\<rparr>)"

subsection \<open>recycleRoadSegments\<close>

definition segZ :: "segment \<Rightarrow> real" where
  "segZ s = vz (segPosition s)"

text \<open>Moving a segment to \<open>newZ\<close>: the two statements both recycling loops run.\<close>

definition relocate :: "segment \<Rightarrow> real \<Rightarrow> real \<Rightarrow> segment" where
  "relocate seg playerZ newZ =
     positionRoadSegment (seg\<lparr>segPosition := (segPosition seg)\<lparr>vz := newZ\<rparr>\<rparr>) playerZ newZ"

text \<open>
  The emergency loop \<open>for (i = 0; i < 50; i++)\<close> over the first array slots: the first
  argument counts the iterations left, the list is the rest of the array from slot \<open>i\<close>
  on. It returns the updated slots and \<open>maxZ\<close>.
\<close>

fun emergencyLoop :: "nat \<Rightarrow> segment list \<Rightarrow> real \<Rightarrow> real \<Rightarrow> segment list \<times> real" where
  "emergencyLoop 0 segs playerZ maxZ = (segs, maxZ)"
| "emergencyLoop (Suc k) [] playerZ maxZ = ([], maxZ)"
| "emergencyLoop (Suc k) (seg # segs) playerZ maxZ =
     (if playerZ - segZ seg > 500
      then (let newZ = maxZ + SEGMENT_LENGTH;
                (segs', maxZ') = emergencyLoop k segs playerZ newZ
            in (relocate seg playerZ newZ # segs', maxZ'))
      else (let (segs', maxZ') = emergencyLoop k segs playerZ maxZ
            in (seg # segs', maxZ')))"

text \<open>The slots the sampling loop \<open>for (i = 0; i < length; i += 4)\<close> reads.\<close>

fun everyFourth :: "'a list \<Rightarrow> 'a list" where
  "everyFourth (a # b # c # d # rest) = a # everyFourth rest"
| "everyFourth (a # rest) = [a]"
| "everyFourth [] = []"

text \<open>
  \<open>Math.max (maxZ, segmentZ)\<close> and \<open>Math.min (minZ, segmentZ)\<close> on an accumulator
  that starts at \<open>this.roadZMax || -Infinity\<close> and \<open>this.roadZMin || Infinity\<close>:
  \<open>None\<close> is the infinite start value.
\<close>

fun accMax :: "real \<Rightarrow> real option \<Rightarrow> real option" where
  "accMax z None = Some z"
| "accMax z (Some m) = Some (max m z)"

fun accMin :: "real \<Rightarrow> real option \<Rightarrow> real option" where
  "accMin z None = Some z"
| "accMin z (Some m) = Some (min m z)"

definition orInfinity :: "real \<Rightarrow> real option" where
  "orInfinity x = (if x = 0 then None else Some x)"

text \<open>
  The resampling of the road extents. The caller has checked that the array is not empty, so
  slot 0 is sampled and both accumulators end finite.
\<close>

definition sampleBounds :: "world \<Rightarrow> world" where
  "sampleBounds w =
     (let zs = map segZ (everyFourth (roadSegments w));
          maxZ = fold accMax zs (orInfinity (roadZMax w));
          minZ = fold accMin zs (orInfinity (roadZMin w))
      in case (minZ, maxZ) of
           (Some lo, Some hi) \<Rightarrow> w\<lparr>roadZMin := lo, roadZMax := hi, initialBoundsCalculated := True\<rparr>
         | _ \<Rightarrow> w\<lparr>initialBoundsCalculated := True\<rparr>)"

text \<open>
  The full recycling loop
  \<open>for (i = 0; i < length && recycledForward < maxSegmentsToProcess; i++)\<close> with its early
  \<open>break\<close>; the list is the rest of the array from slot \<open>i\<close> on. It returns the updated
  slots, \<open>maxZ\<close> and \<open>recycledForward\<close>.
\<close>

fun recycleLoop :: "segment list \<Rightarrow> real \<Rightarrow> real \<Rightarrow> nat \<Rightarrow> segment list \<times> real \<times> nat" where
  "recycleLoop [] playerZ maxZ recycledForward = ([], maxZ, recycledForward)"
| "recycleLoop (seg # segs) playerZ maxZ recycledForward =
     (if recycledForward < 50 then
        (let (seg', maxZ', recycled') =
               (if playerZ - segZ seg > 1000
                then (let newZ = maxZ + SEGMENT_LENGTH
                      in (relocate seg playerZ newZ, newZ, recycledForward + 1))
                else (seg, maxZ, recycledForward))
         in if maxZ' - playerZ > 3000 then (seg' # segs, maxZ', recycled')
            else (let (segs', maxZ'', recycled'') = recycleLoop segs playerZ maxZ' recycled'
                  in (seg' # segs', maxZ'', recycled'')))
      else (seg # segs, maxZ, recycledForward))"

text \<open>The part of the method after the early return of the quick path.\<close>

definition fullRecycle :: "world \<Rightarrow> real \<Rightarrow> bool \<Rightarrow> world" where
  "fullRecycle w playerZ shouldRecycle =
     (if roadSegments w = [] then w
      else
        (let w1 = (if \<not> initialBoundsCalculated w \<or> shouldRecycle then sampleBounds w else w);
             roadAheadDistance = roadZMax w1 - playerZ
         in if roadAheadDistance < 3000 then
              (let (segs', maxZ, recycledForward) = recycleLoop (roadSegments w1) playerZ (roadZMax w1) 0;
                   w2 = w1\<lparr>roadSegments := segs'\<rparr>
               in if recycledForward > 0 then w2\<lparr>roadZMax := maxZ\<rparr> else w2)
            else w1))"

definition recycleRoadSegments :: "world \<Rightarrow> real \<Rightarrow> world" where
  "recycleRoadSegments w playerZ =
     (let w1 = w\<lparr>lastRecycleFrame := lastRecycleFrame w + 1\<rparr>;
          shouldRecycle = (lastRecycleFrame w1 \<ge> 10)
      in if shouldRecycle then fullRecycle (w1\<lparr>lastRecycleFrame := 0\<rparr>) playerZ shouldRecycle
         else if roadZMax w1 = 0 then fullRecycle w1 playerZ shouldRecycle
         else
           (let quickAheadDistance = roadZMax w1 - playerZ
            in if quickAheadDistance < 500 then
                 (let (segs', maxZ) = emergencyLoop 50 (roadSegments w1) playerZ (roadZMax w1)
                  in w1\<lparr>roadSegments := segs', roadZMax := maxZ\<rparr>)
               else w1))"

definition forceUpdateAllRoadSegments :: "world \<Rightarrow> world" where
  "forceUpdateAllRoadSegments w =
     (if playerZPosition w = 0 then w
      else (let playerZ = playerZPosition w
            in w\<lparr>roadSegments :=
                   map (\<lambda>seg. if segZ seg > playerZ - 30
                               then positionRoadSegment seg playerZ (segZ seg) else seg)
                       (roadSegments w)\<rparr>))"

subsection \<open>updateRoad and the road part of GameWorld.update\<close>

definition updateRoad :: "world \<Rightarrow> real \<Rightarrow> real \<Rightarrow> world" where
  "updateRoad w playerSpeed playerZ =
     (let w1 = w\<lparr>playerZPosition := playerZ\<rparr>;
          distanceToRoadEnd = roadZMax w1 - playerZ;
          w2 = (if distanceToRoadEnd < 500 then recycleRoadSegments w1 playerZ else w1)
      in if playerSpeed > 0 \<and> updateCount w2 mod 3 = 0
         then recycleRoadSegments w2 playerZ else w2)"

text \<open>
  \<open>GameWorld.update\<close> with a player position, up to and including \<open>updateRoad\<close>; what
  follows in the method (obstacles, collectibles, decorations, effects) leaves the road
  state alone.
\<close>

definition worldUpdate :: "world \<Rightarrow> real \<Rightarrow> real \<Rightarrow> world" where
  "worldUpdate w playerSpeed playerZ =
     (let w1 = w\<lparr>updateCount := updateCount w + 1\<rparr>;
          w2 = (if updateCount w1 = 1 then w1\<lparr>playerZPosition := playerZ\<rparr> else w1);
          earlyGameCheck = (updateCount w2 < 100);
          w3 = (if earlyGameCheck \<and> updateCount w2 mod 20 = 0 \<and> roadZMax w2 - playerZ < 2000
                then recycleRoadSegments w2 playerZ else w2)
      in updateRoad w3 playerSpeed playerZ)"

text \<open>
  The road state when the game starts: \<open>Game.init\<close> builds the world and then forces one
  call \<open>recycleRoadSegments (0)\<close>.
\<close>

definition gameStart :: world where
  "gameStart = recycleRoadSegments createRoad 0"

text \<open>
  A drive at top speed: in every frame the vehicle moves forward by \<open>MAX_SPEED * 0.1\<close>,
  the most a frame of the capped delta time 0.1 covers at \<open>MAX_SPEED\<close>, and the world is
  updated with the new position. \<open>maxSpeedDrive n\<close> is the road state after frame \<open>n\<close>.
\<close>

primrec maxSpeedDrive :: "nat \<Rightarrow> world" where
  "maxSpeedDrive 0 = gameStart"
| "maxSpeedDrive (Suc n) =
     worldUpdate (maxSpeedDrive n) MAX_SPEED (MAX_SPEED * 0.1 * real (Suc n))"

text \<open>
  Two notions for reasoning about the recycling loops: the segments of a block relocated one
  after the other behind \<open>maxZ\<close>, and a block whose z positions lie within bounds.
\<close>

fun relocateAll :: "segment list \<Rightarrow> real \<Rightarrow> real \<Rightarrow> segment list" where
  "relocateAll [] playerZ maxZ = []"
| "relocateAll (seg # segs) playerZ maxZ =
     relocate seg playerZ (maxZ + SEGMENT_LENGTH) # relocateAll segs playerZ (maxZ + SEGMENT_LENGTH)"

definition zsWithin :: "segment list \<Rightarrow> real \<Rightarrow> real \<Rightarrow> bool" where
  "zsWithin segs lo hi = list_all (\<lambda>s. lo \<le> segZ s \<and> segZ s \<le> hi) segs"

text \<open>The part of a road state that decides what the maintenance does next.\<close>

definition roadState :: "world \<Rightarrow> segment list \<Rightarrow> real \<Rightarrow> nat \<Rightarrow> nat \<Rightarrow> bool" where
  "roadState w segs zmax lrf uc =
     (roadSegments w = segs \<and> roadZMax w = zmax \<and> lastRecycleFrame w = lrf \<and> updateCount w = uc)"

subsection \<open>Segments that carry the offset of their position\<close>

text \<open>A segment is current when its stored x is the curvature function at its stored z.\<close>

definition segmentCurrent :: "segment \<Rightarrow> bool" where
  "segmentCurrent s = (vx (segPosition s) = getTrackXPositionAtZ (segZ s))"

definition roadCurrent :: "world \<Rightarrow> bool" where
  "roadCurrent w = list_all segmentCurrent (roadSegments w)"

text \<open>
  The road states the program can be in: the state \<open>init\<close> builds, and whatever the methods
  that write the road state make of a reachable state, for any arguments.
\<close>

inductive reachableWorld :: "world \<Rightarrow> bool" where
  created: "reachableWorld createRoad"
| recycled: "reachableWorld w \<Longrightarrow> reachableWorld (recycleRoadSegments w playerZ)"
| updated: "reachableWorld w \<Longrightarrow> reachableWorld (worldUpdate w playerSpeed playerZ)"
| forced: "reachableWorld w \<Longrightarrow> reachableWorld (forceUpdateAllRoadSegments w)"

section \<open>Control resolution\<close>

text \<open>
  C6. After control resolution the throttle is 1 exactly when the accelerate flag is set and
  the brake flag is not, and 0 otherwise; with both flags set the throttle is 0.
\<close>

theorem updateControls_throttle:
  "throttle (updateControls v inp dt) = (if accelerate inp \<and> \<not> brakeKey inp then 1 else 0) \<and>
   (throttle (updateControls v inp dt) = 1 \<longleftrightarrow> (accelerate inp \<and> \<not> brakeKey inp)) \<and>
   (accelerate inp \<and> brakeKey inp \<longrightarrow> throttle (updateControls v inp dt) = 0)"
  by (simp add: updateControls_def resolveControls_def Let_def)

theorem updateControls_throttle_witness:
  "accelerate accelerateAndBrake \<and> brakeKey accelerateAndBrake \<and>
   throttle (updateControls newVehicle accelerateAndBrake 0.016) = 0"
  using updateControls_throttle [of newVehicle accelerateAndBrake "0.016"]
  by (simp add: accelerateAndBrake_def noKeys_def)

section \<open>The tractive force\<close>

lemma calcTractiveForce_cases:
  assumes "isGrounded v" "throttle v = 0 \<or> throttle v = 1" "reverse v = 0 \<or> reverse v = 1"
  shows "calcTractiveForce v =
     (if throttle v > 0 \<and> speed v \<ge> -1
      then ACCELERATION * (1.8 * (1 - max 0 (min 1 (speed v / MAX_SPEED))) powr 1.5 + 0.2)
      else if brake v > 0 then - sign (speed v) * DECELERATION * 6.0 * brake v
      else if reverse v > 0 then
        (if speed v > 5 then - 2.0 * DECELERATION
         else if 0 < speed v \<and> speed v \<le> 5 then - 2.5 * DECELERATION
         else - 0.4 * ACCELERATION)
      else - sign (speed v) * ENGINE_BRAKING)"
  using assms by (auto simp add: calcTractiveForce_def Let_def)

lemma updateControls_flags:
  "throttle (updateControls v inp dt) = 0 \<or> throttle (updateControls v inp dt) = 1"
  "reverse (updateControls v inp dt) = 0 \<or> reverse (updateControls v inp dt) = 1"
  by (simp_all add: updateControls_def resolveControls_def Let_def)

lemma updateSuspension_fields:
  "throttle (updateSuspension v) = throttle v" "reverse (updateSuspension v) = reverse v"
  "brake (updateSuspension v) = brake v" "speed (updateSuspension v) = speed v"
  by (simp_all add: updateSuspension_def Let_def)

lemma debug_tractiveForce: "tractiveForce (debug (calculateForces v)) = calcTractiveForce v"
  by (simp add: calculateForces_def vehicle.defs forcedVehicle.defs Let_def split: option.splits)

text \<open>
  C1. In a frame, \<open>calculateForces\<close> runs on the state \<open>v\<close> left by control resolution
  and the suspension update. Whenever that state is grounded, the tractive force it computes
  is: with the throttle active and speed at least \<open>-1\<close>, \<open>ACCELERATION\<close> times
  \<open>1.8 (1 - r)\<^sup>1\<^sup>.\<^sup>5 + 0.2\<close> for \<open>r\<close> the speed ratio clamped to \<open>[0, 1]\<close>; else with
  the brake active, \<open>- sign speed * DECELERATION * 6 * brake\<close>; else with reverse active,
  \<open>-2 DECELERATION\<close> above speed 5, \<open>-2.5 DECELERATION\<close> for speeds in \<open>(0, 5]\<close> and
  \<open>-0.4 ACCELERATION\<close> at speed 0 or below; else \<open>- sign speed * ENGINE_BRAKING\<close>.
\<close>

theorem calculateForces_tractiveForce:
  assumes "v = updateSuspension (updateControls v0 inp dt)" and "isGrounded v"
  shows "tractiveForce (debug (calculateForces v)) =
     (if throttle v > 0 \<and> speed v \<ge> -1
      then ACCELERATION * (1.8 * (1 - max 0 (min 1 (speed v / MAX_SPEED))) powr 1.5 + 0.2)
      else if brake v > 0 then - sign (speed v) * DECELERATION * 6.0 * brake v
      else if reverse v > 0 then
        (if speed v > 5 then - 2.0 * DECELERATION
         else if 0 < speed v \<and> speed v \<le> 5 then - 2.5 * DECELERATION
         else - 0.4 * ACCELERATION)
      else - sign (speed v) * ENGINE_BRAKING)"
proof -
  have "throttle v = 0 \<or> throttle v = 1" "reverse v = 0 \<or> reverse v = 1"
    using updateControls_flags [of v0 inp dt] by (simp_all add: assms(1) updateSuspension_fields)
  from calcTractiveForce_cases [OF assms(2) this] show ?thesis
    by (simp only: debug_tractiveForce)
qed

section \<open>The ground floor\<close>





lemma startVehicle_fields:
  "position startVehicle = Vector3 0 1 0" "velocity startVehicle = Vector3 0 0 0"
  "speed startVehicle = 0" "rotationY startVehicle = 0" "isOffRoad startVehicle = False"
  "direction startVehicle = Vector3 0 0 1" "steeringAngle startVehicle = 0"
  "wheels startVehicle = wheels newVehicle"
  by (simp_all add: startVehicle_def updateVehicleVectors_def newVehicle_def normalize_def
      applyRotationY_def vlength_def Vector3_def)

lemma startVehicle_grounded:
  "isGrounded (updateSuspension (updateControls startVehicle accelerateOnly 0.016))"
  by (simp add: updateSuspension_def updateControls_def resolveControls_def Let_def startVehicle_fields newVehicle_def
      newWheel_def updateWheel_def getWheelWorldPosition_def applyRotationY_def vadd_def Vector3_def
      WHEEL_RADIUS_def SUSPENSION_TRAVEL_def)

theorem calculateForces_tractiveForce_witness:
  "isGrounded (updateSuspension (updateControls startVehicle accelerateOnly 0.016)) \<and>
   tractiveForce (debug (calculateForces
     (updateSuspension (updateControls startVehicle accelerateOnly 0.016)))) = 4000"
  using calculateForces_tractiveForce [OF refl startVehicle_grounded] startVehicle_grounded
  by (simp add: updateSuspension_fields updateControls_def resolveControls_def Let_def accelerateOnly_def noKeys_def
      startVehicle_fields MAX_SPEED_def ACCELERATION_def)

section \<open>The delta time\<close>

lemma capDeltaTime_Num: "capDeltaTime (Num d) = Num (min d 0.1)"
  by (simp add: capDeltaTime_def Math_min_def min_def)

text \<open>
  C9 as stated fails: a negative delta time and a NaN delta time both pass line 123
  unchanged, and the stages of \<open>update\<close> run with the negative value.
\<close>

theorem capDeltaTime_counterexample:
  "capDeltaTime (Num (- 1)) = Num (- 1) \<and> capDeltaTime NaN = NaN \<and>
   update startVehicle noKeys (- 1) None =
     updateStages (applyInitialBoost (startVehicle\<lparr>wasOffRoad := isOffRoad startVehicle\<rparr>) noKeys)
       noKeys (- 1) None"
  by (simp add: capDeltaTime_def Math_min_def update_def Let_def)

text \<open>
  C9, amended. The delta time is capped from above only: the value used is
  \<open>Math.min (deltaTime, 0.1)\<close>. For a finite \<open>deltaTime\<close> it is the smaller of
  \<open>deltaTime\<close> and 0.1, so it never exceeds 0.1, and every stage of \<open>update\<close> runs with
  it; positive infinity becomes 0.1; negative infinity and NaN stay what they are.
\<close>

theorem capDeltaTime_upper_only:
  "capDeltaTime (Num d) = Num (min d 0.1) \<and> min d 0.1 \<le> 0.1 \<and>
   capDeltaTime PosInf = Num 0.1 \<and> capDeltaTime NegInf = NegInf \<and> capDeltaTime NaN = NaN \<and>
   update v inp d world =
     updateStages (applyInitialBoost (v\<lparr>wasOffRoad := isOffRoad v\<rparr>) inp) inp (min d 0.1) world"
  by (simp add: capDeltaTime_Num update_def Let_def) (simp add: capDeltaTime_def Math_min_def)

section \<open>Ground clearance\<close>

subsection \<open>The two models of the update agree on finite delta times\<close>






lemma resolveControls_fields:
  "steeringAngle (resolveControls v inp) = steeringAngle v"
  "frontWheels (resolveControls v inp) = frontWheels v"
  "speed (resolveControls v inp) = speed v"
  by (simp_all add: resolveControls_def)










subsection \<open>A delta time that is not a number\<close>
















section \<open>The initial boost\<close>

text \<open>
  C10. When the accelerate flag is set and the speed is below 0.1, \<open>update\<close> first sets the
  speed to 30 and the velocity to \<open>(0, 0, 30)\<close>; control resolution, the force model and
  the integration then run on that state.
\<close>

theorem update_initial_boost:
  assumes "accelerate inp" and "speed v < 0.1"
  shows "speed (applyInitialBoost v inp) = 30 \<and>
         velocity (applyInitialBoost v inp) = Vector3 0 0 30 \<and>
         update v inp deltaTime world =
           updateStages (v\<lparr>wasOffRoad := isOffRoad v, speed := 30, velocity := Vector3 0 0 30\<rparr>)
             inp (min deltaTime 0.1) world"
  using assms by (simp add: applyInitialBoost_def update_def Let_def)

theorem update_initial_boost_witness:
  "accelerate accelerateOnly \<and> speed startVehicle < 0.1 \<and>
   speed (applyInitialBoost startVehicle accelerateOnly) = 30 \<and>
   velocity (applyInitialBoost startVehicle accelerateOnly) = Vector3 0 0 30 \<and>
   update startVehicle accelerateOnly 0.016 None =
     updateStages (startVehicle\<lparr>wasOffRoad := isOffRoad startVehicle, speed := 30,
                                velocity := Vector3 0 0 30\<rparr>)
       accelerateOnly (min 0.016 0.1) None"
  using update_initial_boost [of accelerateOnly startVehicle "0.016" None]
  by (simp add: accelerateOnly_def noKeys_def startVehicle_fields)

section \<open>Ratios of speeds\<close>

text \<open>
  C8. The code produces NaN where the claim excludes it. At a negative speed the steering
  effectiveness factor of \<open>updateControls\<close> is NaN (a negative base under the exponent 0.7),
  and so is the steering rotation written to the front wheels. At speed 0,
  \<open>collideWithObstacle\<close> scales the velocity by \<open>0 / 0\<close>: its horizontal components become
  NaN.
\<close>

theorem speed_ratios_yield_NaN:
  "steeringSpeedFactor (- 10) = NaN \<and>
   map meshRotationY (frontWheels (updateControls reversing noKeys 0.016)) = [NaN] \<and>
   speed startVehicle = 0 \<and>
   jx (newVelocity (fst (collideWithObstacle startVehicle rt))) = NaN \<and>
   jz (newVelocity (fst (collideWithObstacle startVehicle rt))) = NaN"
  by (simp add: steeringSpeedFactor_def Math_pow_def MAX_SPEED_def Math_max_def js_sub_def
      updateControls_def resolveControls_def Let_def reversing_def effectiveSteeringAngle_def noKeys_def
      collideWithObstacle_def startVehicle_fields sign_def signedInf_def Math_random_def
      split: prod.splits)

section \<open>Determinism of update\<close>


text \<open>The random source does matter to \<open>collideWithObstacle\<close>.\<close>

lemma collideWithObstacle_random:
  "newAngularVelocity (fst (collideWithObstacle v (rt\<lparr>randomDraws := (\<lambda>n. 0)\<rparr>))) \<noteq>
   newAngularVelocity (fst (collideWithObstacle v (rt\<lparr>randomDraws := (\<lambda>n. 0.5)\<rparr>)))"
  by (simp add: collideWithObstacle_def Math_random_def Let_def)



















section \<open>The curvature function\<close>

text \<open>
  C3. The curvature function is not periodic at negative positions: \<open>%\<close> keeps the sign
  of \<open>z\<close>, no pair of control points brackets a negative pattern position, and the offset is
  0 there, while one track length further on the track is in its last turn.
\<close>

theorem getTrackXPositionAtZ_negative:
  "getTrackXPositionAtZ (- 100) = 0 \<and> getTrackXPositionAtZ (- 100 + ROAD_LENGTH) = - 70 / 9"
  by (simp add: getTrackXPositionAtZ_def trackXOffset_def js_rem_def ROAD_LENGTH_def
      trackPoints_def cubicEase_def LANE_WIDTH_def)

text \<open>From 0 on, the function repeats with the track length.\<close>

lemma js_rem_period:
  assumes "0 \<le> z"
  shows "js_rem (z + ROAD_LENGTH) ROAD_LENGTH = js_rem z ROAD_LENGTH"
proof -
  have "\<lfloor>(z + 2000) / 2000\<rfloor> = \<lfloor>z / 2000\<rfloor> + 1"
    by (simp add: add_divide_distrib)
  then show ?thesis
    using assms by (simp add: js_rem_def ROAD_LENGTH_def algebra_simps)
qed

lemma getTrackXPositionAtZ_periodic_nonneg:
  "0 \<le> z \<Longrightarrow> getTrackXPositionAtZ (z + ROAD_LENGTH) = getTrackXPositionAtZ z"
  by (simp add: getTrackXPositionAtZ_def js_rem_period)

section \<open>Segment offsets after recycling\<close>

lemma positionRoadSegment_current:
  "segZ s = z \<Longrightarrow> segmentCurrent (positionRoadSegment s playerZ z)"
  by (simp add: segmentCurrent_def positionRoadSegment_def Let_def getTrackXPositionAtZ_def segZ_def)

lemma segZ_relocate: "segZ (relocate s playerZ z) = z"
  by (simp add: relocate_def positionRoadSegment_def Let_def segZ_def)

lemma relocate_current: "segmentCurrent (relocate s playerZ z)"
  by (simp add: relocate_def positionRoadSegment_current segZ_def)

lemma createSegment_current: "segmentCurrent (createSegment i)"
  by (simp add: segmentCurrent_def createSegment_def Let_def getTrackXPositionAtZ_def segZ_def Vector3_def)

lemma createRoad_current: "roadCurrent createRoad"
  by (simp add: roadCurrent_def createRoad_def Let_def list_all_iff createSegment_current)

lemma emergencyLoop_current:
  "list_all segmentCurrent segs \<Longrightarrow> list_all segmentCurrent (fst (emergencyLoop k segs playerZ maxZ))"
  by (induction k segs playerZ maxZ rule: emergencyLoop.induct)
     (simp_all add: Let_def split_beta relocate_current)

lemma recycleLoop_current:
  "list_all segmentCurrent segs \<Longrightarrow> list_all segmentCurrent (fst (recycleLoop segs playerZ maxZ n))"
  by (induction segs playerZ maxZ n rule: recycleLoop.induct)
     (simp_all add: Let_def split_beta relocate_current)

lemma roadSegments_sampleBounds: "roadSegments (sampleBounds w) = roadSegments w"
  by (simp add: sampleBounds_def Let_def split: option.splits)

lemma fullRecycle_current: "roadCurrent w \<Longrightarrow> roadCurrent (fullRecycle w playerZ b)"
  by (simp add: fullRecycle_def roadCurrent_def Let_def split_beta roadSegments_sampleBounds recycleLoop_current)

lemma recycleRoadSegments_preserves:
  "roadCurrent w \<Longrightarrow> roadCurrent (recycleRoadSegments w playerZ)"
proof -
  assume a: "roadCurrent w"
  have b: "\<And>n. roadCurrent (w\<lparr>lastRecycleFrame := n\<rparr>)" using a by (simp add: roadCurrent_def)
  show ?thesis
    using a by (simp add: recycleRoadSegments_def Let_def split_beta fullRecycle_current b)
      (simp add: roadCurrent_def emergencyLoop_current)
qed

lemma updateRoad_preserves: "roadCurrent w \<Longrightarrow> roadCurrent (updateRoad w s z)"
proof -
  assume a: "roadCurrent w"
  then have b: "roadCurrent (w\<lparr>playerZPosition := z\<rparr>)" by (simp add: roadCurrent_def)
  show ?thesis
    by (simp add: updateRoad_def Let_def recycleRoadSegments_preserves b)
qed

lemma worldUpdate_preserves: "roadCurrent w \<Longrightarrow> roadCurrent (worldUpdate w s z)"
proof -
  assume a: "roadCurrent w"
  then have b: "\<And>n p. roadCurrent (w\<lparr>updateCount := n\<rparr>)" "\<And>n p. roadCurrent (w\<lparr>updateCount := n, playerZPosition := p\<rparr>)"
    by (simp_all add: roadCurrent_def)
  show ?thesis
    by (simp add: worldUpdate_def Let_def recycleRoadSegments_preserves updateRoad_preserves b)
qed

lemma forceUpdate_preserves: "roadCurrent w \<Longrightarrow> roadCurrent (forceUpdateAllRoadSegments w)"
  by (auto simp add: forceUpdateAllRoadSegments_def roadCurrent_def Let_def list_all_iff positionRoadSegment_current)

lemma reachable_current: "reachableWorld w \<Longrightarrow> roadCurrent w"
  by (induction rule: reachableWorld.induct)
     (simp_all add: createRoad_current recycleRoadSegments_preserves worldUpdate_preserves forceUpdate_preserves)

text \<open>
  C4. In every reachable road state, after a call of \<open>recycleRoadSegments\<close> each segment's
  stored x is the curvature function at the segment's current z; a relocated segment sits at
  its new z with the offset computed for that new z.
\<close>

theorem recycleRoadSegments_offsets_current:
  assumes "reachableWorld w"
  shows "roadCurrent (recycleRoadSegments w playerZ) \<and>
         (\<forall>seg \<in> set (roadSegments (recycleRoadSegments w playerZ)).
             vx (segPosition seg) = getTrackXPositionAtZ (vz (segPosition seg))) \<and>
         vz (segPosition (relocate seg playerZ newZ)) = newZ \<and>
         vx (segPosition (relocate seg playerZ newZ)) = getTrackXPositionAtZ newZ"
proof -
  have c: "roadCurrent (recycleRoadSegments w playerZ)"
    using assms by (simp add: reachable_current recycleRoadSegments_preserves)
  have r: "segmentCurrent (relocate seg playerZ newZ)" by (rule relocate_current)
  show ?thesis
    using c r segZ_relocate [of seg playerZ newZ]
    by (simp add: roadCurrent_def list_all_iff segmentCurrent_def segZ_def)
qed

section \<open>Keeping the road ahead of the vehicle\<close>

lemma SEGMENT_LENGTH_eq: "SEGMENT_LENGTH = 10"
  by (simp add: SEGMENT_LENGTH_def ROAD_LENGTH_def ROAD_SEGMENTS_def)

lemma length_relocateAll: "length (relocateAll A pz m) = length A"
  by (induction A arbitrary: m) simp_all

lemma relocateAll_append:
  "relocateAll (A @ B) pz m = relocateAll A pz m @ relocateAll B pz (m + 10 * real (length A))"
  by (induction A arbitrary: m) (simp_all add: SEGMENT_LENGTH_eq algebra_simps)

lemma zsWithin_mono: "zsWithin A lo hi \<Longrightarrow> lo' \<le> lo \<Longrightarrow> hi \<le> hi' \<Longrightarrow> zsWithin A lo' hi'"
  by (auto simp add: zsWithin_def list_all_iff)

lemma relocateAll_within: "zsWithin (relocateAll A pz m) (m + 10) (m + 10 * real (length A))"
proof (induction A arbitrary: m)
  case Nil
  show ?case by (simp add: zsWithin_def)
next
  case (Cons s A)
  have "zsWithin (relocateAll A pz (m + 10)) (m + 10) (m + 10 * real (length (s # A)))"
    by (rule zsWithin_mono [OF Cons.IH [of "m + 10"]]) simp_all
  then show ?case
    by (simp add: zsWithin_def SEGMENT_LENGTH_eq segZ_relocate)
qed

lemma createSegments_within:
  "zsWithin (map createSegment [a..<b]) (10 * real a) (10 * real b)"
  by (auto simp add: zsWithin_def list_all_iff createSegment_def Let_def segZ_def Vector3_def SEGMENT_LENGTH_eq)

lemma emergencyLoop_relocates:
  assumes "zsWithin A lo hi" "pz - hi > 500" "length A \<le> k"
  shows "emergencyLoop k (A @ rest) pz m =
     (relocateAll A pz m @ fst (emergencyLoop (k - length A) rest pz (m + 10 * real (length A))),
      snd (emergencyLoop (k - length A) rest pz (m + 10 * real (length A))))"
  using assms
proof (induction A arbitrary: k m)
  case Nil
  then show ?case by simp
next
  case (Cons s A)
  then obtain k' where k: "k = Suc k'" by (cases k) auto
  from Cons.prems have s: "pz - segZ s > 500" and A: "zsWithin A lo hi" and l: "length A \<le> k'"
    by (auto simp add: zsWithin_def k)
  show ?case
    using s Cons.IH [OF A Cons.prems(2) l, of "m + 10"]
    by (simp add: k Let_def split_beta SEGMENT_LENGTH_eq algebra_simps)
qed

lemma emergencyLoop_skips:
  assumes "zsWithin A lo hi" "\<not> pz - lo > 500" "length A \<le> k"
  shows "emergencyLoop k (A @ rest) pz m =
     (A @ fst (emergencyLoop (k - length A) rest pz m), snd (emergencyLoop (k - length A) rest pz m))"
  using assms
proof (induction A arbitrary: k)
  case Nil
  then show ?case by simp
next
  case (Cons s A)
  then obtain k' where k: "k = Suc k'" by (cases k) auto
  from Cons.prems have s: "\<not> pz - segZ s > 500" and A: "zsWithin A lo hi" and l: "length A \<le> k'"
    by (auto simp add: zsWithin_def k)
  show ?case
    using s Cons.IH [OF A Cons.prems(2) l]
    by (simp add: k Let_def split_beta)
qed

lemma recycleLoop_done: "n \<ge> 50 \<Longrightarrow> recycleLoop segs pz m n = (segs, m, n)"
  by (cases segs) simp_all

lemma recycleLoop_skips:
  assumes "zsWithin A lo hi" "\<not> pz - lo > 1000" "\<not> m - pz > 3000" "n < 50"
  shows "recycleLoop (A @ rest) pz m n =
     (A @ fst (recycleLoop rest pz m n), snd (recycleLoop rest pz m n))"
  using assms
proof (induction A)
  case Nil
  then show ?case by simp
next
  case (Cons s A)
  from Cons.prems have s: "\<not> pz - segZ s > 1000" and A: "zsWithin A lo hi"
    by (auto simp add: zsWithin_def)
  show ?case
    using s Cons.prems(3,4) Cons.IH [OF A Cons.prems(2,3,4)]
    by (simp add: Let_def split_beta)
qed

lemma recycleLoop_relocates:
  assumes "zsWithin A lo hi" "pz - hi > 1000" "n + length A \<le> 50"
    "\<not> m + 10 * real (length A) - pz > 3000"
  shows "recycleLoop (A @ rest) pz m n =
     (relocateAll A pz m @ fst (recycleLoop rest pz (m + 10 * real (length A)) (n + length A)),
      snd (recycleLoop rest pz (m + 10 * real (length A)) (n + length A)))"
  using assms
proof (induction A arbitrary: m n)
  case Nil
  then show ?case by simp
next
  case (Cons s A)
  from Cons.prems have s: "pz - segZ s > 1000" and A: "zsWithin A lo hi"
    and n: "n < 50" "Suc n + length A \<le> 50"
    and b: "\<not> m + 10 - pz > 3000" "\<not> (m + 10) + 10 * real (length A) - pz > 3000"
    by (auto simp add: zsWithin_def algebra_simps)
  show ?case
    using s n b Cons.IH [OF A Cons.prems(2) n(2) b(2)]
    by (simp add: Let_def split_beta SEGMENT_LENGTH_eq algebra_simps)
qed

lemma set_everyFourth: "set (everyFourth xs) \<subseteq> set xs"
  by (induction xs rule: everyFourth.induct) auto

lemma everyFourth_nonempty: "xs \<noteq> [] \<Longrightarrow> everyFourth xs \<noteq> []"
  by (induction xs rule: everyFourth.induct) auto

lemma fold_accMax_bounded: "\<forall>z \<in> set zs. z \<le> m \<Longrightarrow> fold accMax zs (Some m) = Some m"
  by (induction zs) (simp_all add: max_absorb1)

lemma fold_accMin_Some: "\<exists>lo. fold accMin zs (Some m) = Some lo"
  by (induction zs arbitrary: m) simp_all

lemma fold_accMin_nonempty: "zs \<noteq> [] \<Longrightarrow> \<exists>lo. fold accMin zs a = Some lo"
  by (cases zs; cases a) (simp_all add: fold_accMin_Some)

lemma sampleBounds_fields:
  "roadSegments (sampleBounds w) = roadSegments w"
  "lastRecycleFrame (sampleBounds w) = lastRecycleFrame w"
  "updateCount (sampleBounds w) = updateCount w"
  by (simp_all add: sampleBounds_def Let_def split: option.splits)

lemma sampleBounds_roadZMax:
  assumes "roadSegments w \<noteq> []" "roadZMax w \<noteq> 0" "zsWithin (roadSegments w) lo (roadZMax w)"
  shows "roadZMax (sampleBounds w) = roadZMax w"
proof -
  have "\<forall>z \<in> set (map segZ (everyFourth (roadSegments w))). z \<le> roadZMax w"
    using assms(3) set_everyFourth [of "roadSegments w"] by (auto simp add: zsWithin_def list_all_iff)
  then have mx: "fold accMax (map segZ (everyFourth (roadSegments w))) (orInfinity (roadZMax w)) = Some (roadZMax w)"
    using assms(2) by (simp add: orInfinity_def fold_accMax_bounded)
  obtain lo' where mn: "fold accMin (map segZ (everyFourth (roadSegments w))) (orInfinity (roadZMin w)) = Some lo'"
    using fold_accMin_nonempty [of "map segZ (everyFourth (roadSegments w))"] everyFourth_nonempty [OF assms(1)]
    by auto
  show ?thesis by (simp add: sampleBounds_def Let_def mx mn)
qed



lemma createRoad_fields:
  "roadZMax createRoad = 10000" "lastRecycleFrame createRoad = 0" "updateCount createRoad = 0"
  by (simp_all add: createRoad_def Let_def ROAD_SEGMENTS_def SEGMENT_LENGTH_eq del: upt_rec_numeral)

lemma gameStart_state: "roadState gameStart (roadSegments createRoad) 10000 1 0"
  by (simp add: roadState_def gameStart_def recycleRoadSegments_def Let_def createRoad_fields)

lemma recycle_quiet:
  assumes "lastRecycleFrame w + 1 < 10" "roadZMax w \<noteq> 0" "\<not> roadZMax w - pz < 500"
  shows "recycleRoadSegments w pz = w\<lparr>lastRecycleFrame := lastRecycleFrame w + 1\<rparr>"
  using assms by (simp add: recycleRoadSegments_def Let_def)

lemma recycle_emergency:
  assumes "lastRecycleFrame w + 1 < 10" "roadZMax w \<noteq> 0" "roadZMax w - pz < 500"
  shows "recycleRoadSegments w pz =
     w\<lparr>lastRecycleFrame := lastRecycleFrame w + 1,
       roadSegments := fst (emergencyLoop 50 (roadSegments w) pz (roadZMax w)),
       roadZMax := snd (emergencyLoop 50 (roadSegments w) pz (roadZMax w))\<rparr>"
  using assms by (simp add: recycleRoadSegments_def Let_def split_beta)

lemma recycle_full:
  assumes "lastRecycleFrame w + 1 \<ge> 10"
  shows "recycleRoadSegments w pz = fullRecycle (w\<lparr>lastRecycleFrame := 0\<rparr>) pz True"
  using assms by (simp add: recycleRoadSegments_def Let_def)

lemma worldUpdate_quiet:
  assumes "roadState w segs zmax lrf uc"
    and "zmax \<noteq> 0" "\<not> zmax - pz < 500" "lrf + 1 < 10" "Suc uc mod 20 \<noteq> 0"
  shows "roadState (worldUpdate w s pz) segs zmax
           (if s > 0 \<and> Suc uc mod 3 = 0 then lrf + 1 else lrf) (Suc uc)"
  using assms
  by (simp add: roadState_def worldUpdate_def updateRoad_def Let_def recycle_quiet)

lemma maxSpeedDrive_quiet:
  "n \<le> 19 \<Longrightarrow> roadState (maxSpeedDrive n) (roadSegments createRoad) 10000 (1 + n div 3) n"
proof (induction n)
  case 0
  show ?case using gameStart_state by simp
next
  case (Suc n)
  then have st: "roadState (maxSpeedDrive n) (roadSegments createRoad) 10000 (1 + n div 3) n"
    and n: "n \<le> 18" by simp_all
  have pz: "\<not> 10000 - MAX_SPEED * 0.1 * real (Suc n) < 500"
    using n by (simp add: MAX_SPEED_def)
  have lrf: "1 + n div 3 + 1 < 10" using n by simp
  have early: "Suc n mod 20 \<noteq> 0" using n by simp
  have "Suc n mod 3 = 0 \<Longrightarrow> 1 + n div 3 + 1 = 1 + Suc n div 3"
    "Suc n mod 3 \<noteq> 0 \<Longrightarrow> 1 + n div 3 = 1 + Suc n div 3"
    by presburger+
  then have step: "(if MAX_SPEED > 0 \<and> Suc n mod 3 = 0 then 1 + n div 3 + 1 else 1 + n div 3) = 1 + Suc n div 3"
    by (simp add: MAX_SPEED_def)
  from worldUpdate_quiet [OF st _ pz lrf early, of MAX_SPEED]
  show ?case by (simp only: maxSpeedDrive.simps step)
qed


lemma upt_split: "a \<le> b \<Longrightarrow> b \<le> c \<Longrightarrow> [a..<c] = [a..<b] @ [b..<c]"
  using upt_add_eq_append [of a b "c - b"] by simp

text \<open>
  A call of \<open>recycleRoadSegments\<close> that relocates: on the road as \<open>createRoad\<close> leaves it,
  with the player at z = 10000, the end of the road. The emergency path moves the first 50
  segments, which lie at 0 to 490, to 10010 to 10500. The first of them had offset 0 at
  z = 0 and gets the offset of z = 10010, which is \<open>- 22 / 135\<close>.
\<close>

lemma relocating_call:
  "recycleRoadSegments createRoad 10000 =
     createRoad\<lparr>lastRecycleFrame := 1,
       roadSegments := relocateAll (map createSegment [0..<50]) 10000 10000 @ map createSegment [50..<1000],
       roadZMax := 10500\<rparr>"
proof -
  have "[0..<1000] = [0..<50] @ [50..<1000]"
    using upt_split [of 0 50 1000] by (simp del: upt_rec_numeral)
  then have S: "roadSegments createRoad = map createSegment [0..<50] @ map createSegment [50..<1000]"
    by (simp add: createRoad_def Let_def ROAD_SEGMENTS_def del: upt_rec_numeral)
  have w: "zsWithin (map createSegment [0..<50]) 0 500"
    using createSegments_within [of 0 50] by (simp del: upt_rec_numeral)
  have e: "emergencyLoop 50 (map createSegment [0..<50] @ map createSegment [50..<1000]) 10000 10000 =
      (relocateAll (map createSegment [0..<50]) 10000 10000 @ map createSegment [50..<1000], 10500)"
    by (simp add: emergencyLoop_relocates [OF w] del: upt_rec_numeral)
  show ?thesis
    by (simp add: recycle_emergency createRoad_fields S e del: upt_rec_numeral)
qed

lemma first_relocated:
  "hd (roadSegments (recycleRoadSegments createRoad 10000)) = relocate (createSegment 0) 10000 10010"
proof -
  have "[0..<50] = 0 # [Suc 0..<50]" by (rule upt_conv_Cons) simp
  then show ?thesis
    by (simp add: relocating_call SEGMENT_LENGTH_eq del: upt_rec_numeral)
qed

theorem recycleRoadSegments_offsets_current_witness:
  "reachableWorld createRoad \<and>
   roadCurrent (recycleRoadSegments createRoad 10000) \<and>
   roadZMax createRoad = 10000 \<and> roadZMax (recycleRoadSegments createRoad 10000) = 10500 \<and>
   hd (roadSegments createRoad) = createSegment 0 \<and>
   vz (segPosition (createSegment 0)) = 0 \<and> vx (segPosition (createSegment 0)) = 0 \<and>
   hd (roadSegments (recycleRoadSegments createRoad 10000)) = relocate (createSegment 0) 10000 10010 \<and>
   vz (segPosition (relocate (createSegment 0) 10000 10010)) = 10010 \<and>
   vx (segPosition (relocate (createSegment 0) 10000 10010)) = getTrackXPositionAtZ 10010 \<and>
   getTrackXPositionAtZ 10010 = - 22 / 135"
proof -
  have c: "reachableWorld createRoad" by (rule reachableWorld.created)
  have h: "hd (roadSegments createRoad) = createSegment 0"
  proof -
    have "[0..<1000] = 0 # [Suc 0..<1000]" by (rule upt_conv_Cons) simp
    then show ?thesis
      by (simp add: createRoad_def Let_def ROAD_SEGMENTS_def del: upt_rec_numeral)
  qed
  have s0: "vz (segPosition (createSegment 0)) = 0" "vx (segPosition (createSegment 0)) = 0"
    by (simp_all add: createSegment_def Let_def Vector3_def trackXOffset_def js_rem_def
        ROAD_LENGTH_def trackPoints_def cubicEase_def LANE_WIDTH_def)
  have x: "getTrackXPositionAtZ 10010 = - 22 / 135"
    by (simp add: getTrackXPositionAtZ_def trackXOffset_def js_rem_def ROAD_LENGTH_def
        trackPoints_def cubicEase_def LANE_WIDTH_def)
  have m: "roadZMax (recycleRoadSegments createRoad 10000) = 10500"
    by (simp add: relocating_call del: upt_rec_numeral)
  show ?thesis
    using recycleRoadSegments_offsets_current [OF c, of 10000 "createSegment 0" 10010]
      c h s0 x first_relocated m createRoad_fields(1)
    by (simp del: upt_rec_numeral)
qed

lemma fullRecycle_state:
  assumes "roadState w segs zmax lrf uc" "segs \<noteq> []" "zmax \<noteq> 0" "zsWithin segs lo zmax"
    "zmax - pz < 3000" "recycleLoop segs pz zmax 0 = (segs', zmax', n)" "n > 0"
  shows "roadState (fullRecycle w pz True) segs' zmax' lrf uc"
proof -
  from assms(1) have f: "roadSegments w = segs" "roadZMax w = zmax" "lastRecycleFrame w = lrf"
    "updateCount w = uc" by (simp_all add: roadState_def)
  have z: "roadZMax (sampleBounds w) = zmax"
    using sampleBounds_roadZMax [of w lo] assms(2,3,4) by (simp add: f)
  show ?thesis
    using assms(2,5,6,7)
    by (simp add: fullRecycle_def Let_def roadState_def sampleBounds_fields z f)
qed


lemma zsWithin_append: "zsWithin (A @ B) lo hi \<longleftrightarrow> zsWithin A lo hi \<and> zsWithin B lo hi"
  by (simp add: zsWithin_def)

lemma recycle_quiet_state:
  assumes "roadState w segs zmax lrf uc" "lrf + 1 < 10" "zmax \<noteq> 0" "\<not> zmax - pz < 500"
  shows "roadState (recycleRoadSegments w pz) segs zmax (lrf + 1) uc"
  using assms by (simp add: roadState_def recycle_quiet)

lemma recycle_emergency_state:
  assumes "roadState w segs zmax lrf uc" "lrf + 1 < 10" "zmax \<noteq> 0" "zmax - pz < 500"
    "emergencyLoop 50 segs pz zmax = (segs', zmax')" "lrf' = lrf + 1"
  shows "roadState (recycleRoadSegments w pz) segs' zmax' lrf' uc"
  using assms by (simp add: roadState_def recycle_emergency)

lemma recycle_full_state:
  assumes "roadState w segs zmax lrf uc" "lrf + 1 \<ge> 10" "segs \<noteq> []" "zmax \<noteq> 0"
    "zsWithin segs lo zmax" "zmax - pz < 3000" "recycleLoop segs pz zmax 0 = (segs', zmax', n)" "n > 0"
  shows "roadState (recycleRoadSegments w pz) segs' zmax' 0 uc"
proof -
  have "roadState (w\<lparr>lastRecycleFrame := 0\<rparr>) segs zmax 0 uc"
    using assms(1) by (simp add: roadState_def)
  from fullRecycle_state [OF this assms(3,4,5,6,7,8)] show ?thesis
    using assms(1,2) by (simp add: recycle_full roadState_def)
qed

text \<open>The three shapes of frame that occur in the drive.\<close>

lemma frame_early_only:
  assumes st: "roadState w segs zmax lrf uc"
    and early: "Suc uc < 100" "Suc uc mod 20 = 0" "zmax - pz < 2000"
    and r1: "\<And>w'. roadState w' segs zmax lrf (Suc uc) \<Longrightarrow>
               roadState (recycleRoadSegments w' pz) segs1 zmax1 lrf1 (Suc uc)"
    and after: "\<not> zmax1 - pz < 500" "Suc uc mod 3 \<noteq> 0"
  shows "roadState (worldUpdate w s pz) segs1 zmax1 lrf1 (Suc uc)"
proof -
  let ?w2 = "w\<lparr>updateCount := Suc uc\<rparr>"
  have uc: "Suc uc \<noteq> 1" using early(2) by (cases "uc = 0") auto
  have "roadState ?w2 segs zmax lrf (Suc uc)" using st by (simp add: roadState_def)
  from r1 [OF this] have a: "roadState (recycleRoadSegments ?w2 pz) segs1 zmax1 lrf1 (Suc uc)" .
  show ?thesis
    using st early after a uc
    by (simp add: worldUpdate_def updateRoad_def Let_def roadState_def)
qed

lemma frame_distance_only:
  assumes st: "roadState w segs zmax lrf uc"
    and noearly: "Suc uc mod 20 \<noteq> 0" and uc: "uc \<noteq> 0"
    and d: "zmax - pz < 500" and t: "Suc uc mod 3 \<noteq> 0"
    and r1: "\<And>w'. roadState w' segs zmax lrf (Suc uc) \<Longrightarrow>
               roadState (recycleRoadSegments w' pz) segs1 zmax1 lrf1 (Suc uc)"
  shows "roadState (worldUpdate w s pz) segs1 zmax1 lrf1 (Suc uc)"
proof -
  let ?w2 = "w\<lparr>updateCount := Suc uc, playerZPosition := pz\<rparr>"
  have "roadState ?w2 segs zmax lrf (Suc uc)" using st by (simp add: roadState_def)
  from r1 [OF this] have a: "roadState (recycleRoadSegments ?w2 pz) segs1 zmax1 lrf1 (Suc uc)" .
  show ?thesis
    using st noearly d t a uc
    by (simp add: worldUpdate_def updateRoad_def Let_def roadState_def)
qed

lemma frame_distance_and_third:
  assumes st: "roadState w segs zmax lrf uc"
    and noearly: "Suc uc mod 20 \<noteq> 0" and uc: "uc \<noteq> 0"
    and d: "zmax - pz < 500" and t: "s > 0" "Suc uc mod 3 = 0"
    and r1: "\<And>w'. roadState w' segs zmax lrf (Suc uc) \<Longrightarrow>
               roadState (recycleRoadSegments w' pz) segs1 zmax1 lrf1 (Suc uc)"
    and r2: "\<And>w'. roadState w' segs1 zmax1 lrf1 (Suc uc) \<Longrightarrow>
               roadState (recycleRoadSegments w' pz) segs2 zmax2 lrf2 (Suc uc)"
  shows "roadState (worldUpdate w s pz) segs2 zmax2 lrf2 (Suc uc)"
proof -
  let ?w2 = "w\<lparr>updateCount := Suc uc, playerZPosition := pz\<rparr>"
  have "roadState ?w2 segs zmax lrf (Suc uc)" using st by (simp add: roadState_def)
  from r1 [OF this] have a: "roadState (recycleRoadSegments ?w2 pz) segs1 zmax1 lrf1 (Suc uc)" .
  from r2 [OF a] have b: "roadState (recycleRoadSegments (recycleRoadSegments ?w2 pz) pz) segs2 zmax2 lrf2 (Suc uc)" .
  show ?thesis
    using st noearly d t a b uc
    by (simp add: worldUpdate_def updateRoad_def Let_def roadState_def)
qed

lemma maxSpeedDrive_step:
  assumes "n = Suc m" "z = MAX_SPEED * 0.1 * real n"
  shows "maxSpeedDrive n = worldUpdate (maxSpeedDrive m) MAX_SPEED z"
  unfolding assms by (rule maxSpeedDrive.simps(2))

text \<open>
  C5. The road runs out at top speed. When the vehicle advances by \<open>MAX_SPEED * 0.1\<close>
  per frame from the start of the game and the world is updated every frame, the emergency
  path and the full recycling pass together extend the road by less than the vehicle
  covers: after frame 24 the vehicle is at 12000 and the tracked maximum extent is 11990.
\<close>

theorem road_runs_out:
  "roadZMax (maxSpeedDrive 24) = 11990 \<and> MAX_SPEED * 0.1 * real 24 = 12000 \<and>
   roadZMax (maxSpeedDrive 24) - MAX_SPEED * 0.1 * real 24 < 0"
proof -
  define A0 where "A0 = map createSegment [0..<49]"
  define s49 where "s49 = map createSegment [49..<50]"
  define B0 where "B0 = map createSegment [50..<100]"
  define R0 where "R0 = map createSegment [100..<1000]"
  define A1 where "A1 = relocateAll A0 10000 10000"
  define t49 where "t49 = relocateAll s49 10000 10490"
  define B1 where "B1 = relocateAll B0 10500 10500"
  define A2 where "A2 = relocateAll A1 11000 11000"
  define u49 where "u49 = relocateAll t49 11500 11490"
  define A3 where "A3 = relocateAll A2 12000 11500"
  have "[0..<1000] = [0..<49] @ [49..<50] @ [50..<100] @ [100..<1000]"
    using upt_split [of 0 49 1000] upt_split [of 49 50 1000] upt_split [of 50 100 1000]
    by (simp del: upt_rec_numeral)
  then have S0: "roadSegments createRoad = A0 @ s49 @ B0 @ R0"
    by (simp add: createRoad_def Let_def ROAD_SEGMENTS_def A0_def s49_def B0_def R0_def
        del: upt_rec_numeral)
  have len: "length A0 = 49" "length s49 = 1" "length B0 = 50" "length A1 = 49" "length t49 = 1"
    "length B1 = 50" "length A2 = 49" "length u49 = 1" "length A3 = 49"
    by (simp_all add: A0_def s49_def B0_def A1_def t49_def B1_def A2_def u49_def A3_def
        length_relocateAll del: upt_rec_numeral)
  have wA0: "zsWithin A0 0 490" and ws49: "zsWithin s49 490 500" and wB0: "zsWithin B0 500 1000"
    and wR0: "zsWithin R0 1000 10000"
    using createSegments_within [of 0 49] createSegments_within [of 49 50]
      createSegments_within [of 50 100] createSegments_within [of 100 1000]
    by (simp_all add: A0_def s49_def B0_def R0_def del: upt_rec_numeral)
  have wA1: "zsWithin A1 10010 10490" and wt49: "zsWithin t49 10500 10500"
    and wB1: "zsWithin B1 10510 11000" and wA2: "zsWithin A2 11010 11490"
    and wu49: "zsWithin u49 11500 11500" and wA3: "zsWithin A3 11510 11990"
    using relocateAll_within [of A0 10000 10000] relocateAll_within [of s49 10000 10490]
      relocateAll_within [of B0 10500 10500] relocateAll_within [of A1 11000 11000]
      relocateAll_within [of t49 11500 11490] relocateAll_within [of A2 12000 11500]
    by (simp_all add: A1_def t49_def B1_def A2_def u49_def A3_def len length_relocateAll)
  have st19: "roadState (maxSpeedDrive 19) (A0 @ s49 @ B0 @ R0) 10000 7 19"
    using maxSpeedDrive_quiet [of 19] by (simp add: S0)
  have md: "maxSpeedDrive 20 = worldUpdate (maxSpeedDrive 19) MAX_SPEED 10000"
    "maxSpeedDrive 21 = worldUpdate (maxSpeedDrive 20) MAX_SPEED 10500"
    "maxSpeedDrive 22 = worldUpdate (maxSpeedDrive 21) MAX_SPEED 11000"
    "maxSpeedDrive 23 = worldUpdate (maxSpeedDrive 22) MAX_SPEED 11500"
    "maxSpeedDrive 24 = worldUpdate (maxSpeedDrive 23) MAX_SPEED 12000"
    by (rule maxSpeedDrive_step; simp add: MAX_SPEED_def)+
  have fast: "MAX_SPEED > 0" by (simp add: MAX_SPEED_def)
  txt \<open>Frame 20: the early-game check recycles the first 50 segments.\<close>
  have e20: "emergencyLoop 50 (A0 @ s49 @ B0 @ R0) 10000 10000 = (A1 @ t49 @ B0 @ R0, 10500)"
    by (simp add: emergencyLoop_relocates [OF wA0] emergencyLoop_relocates [OF ws49] len
        A1_def t49_def)
  have c20: "roadState (recycleRoadSegments w' 10000) (A1 @ t49 @ B0 @ R0) 10500 8 20"
    if "roadState w' (A0 @ s49 @ B0 @ R0) 10000 7 20" for w'
    by (rule recycle_emergency_state [OF that _ _ _ e20]) simp_all
  have "roadState (worldUpdate (maxSpeedDrive 19) MAX_SPEED 10000)
          (A1 @ t49 @ B0 @ R0) 10500 8 (Suc 19)"
    by (rule frame_early_only [OF st19]) (simp_all add: c20)
  then have st20: "roadState (maxSpeedDrive 20) (A1 @ t49 @ B0 @ R0) 10500 8 20"
    by (simp add: md)
  txt \<open>Frame 21: the emergency pass finds nothing, the full pass recycles 50 segments.\<close>
  have e21: "emergencyLoop 50 (A1 @ t49 @ B0 @ R0) 10500 10500 = (A1 @ t49 @ B0 @ R0, 10500)"
    by (simp add: emergencyLoop_skips [OF wA1] emergencyLoop_skips [OF wt49] len)
  have r21: "recycleLoop (A1 @ t49 @ B0 @ R0) 10500 10500 0 = (A1 @ t49 @ B1 @ R0, 11000, 50)"
    by (simp add: recycleLoop_skips [OF wA1] recycleLoop_skips [OF wt49]
        recycleLoop_relocates [OF wB0] recycleLoop_done len B1_def)
  have w21: "zsWithin (A1 @ t49 @ B0 @ R0) 0 10500"
    using zsWithin_mono [OF wA1, of 0 10500] zsWithin_mono [OF wt49, of 0 10500]
      zsWithin_mono [OF wB0, of 0 10500] zsWithin_mono [OF wR0, of 0 10500]
    by (simp add: zsWithin_append)
  have ne: "A1 @ t49 @ B0 @ R0 \<noteq> []" using len(5) by auto
  have c21: "roadState (recycleRoadSegments w' 10500) (A1 @ t49 @ B0 @ R0) 10500 9 21"
    if "roadState w' (A1 @ t49 @ B0 @ R0) 10500 8 21" for w'
    by (rule recycle_emergency_state [OF that _ _ _ e21]) simp_all
  have c21': "roadState (recycleRoadSegments w' 10500) (A1 @ t49 @ B1 @ R0) 11000 0 21"
    if "roadState w' (A1 @ t49 @ B0 @ R0) 10500 9 21" for w'
    by (rule recycle_full_state [OF that _ ne _ w21 _ r21]) simp_all
  have "roadState (worldUpdate (maxSpeedDrive 20) MAX_SPEED 10500)
          (A1 @ t49 @ B1 @ R0) 11000 0 (Suc 20)"
    by (rule frame_distance_and_third [OF st20, where ?segs1.0 = "A1 @ t49 @ B0 @ R0"
          and ?zmax1.0 = 10500 and ?lrf1.0 = 9])
       (simp_all add: c21 c21' fast)
  then have st21: "roadState (maxSpeedDrive 21) (A1 @ t49 @ B1 @ R0) 11000 0 21"
    by (simp add: md)
  txt \<open>Frame 22: the emergency pass recycles 49 of the first 50 segments.\<close>
  have e22: "emergencyLoop 50 (A1 @ t49 @ B1 @ R0) 11000 11000 = (A2 @ t49 @ B1 @ R0, 11490)"
    by (simp add: emergencyLoop_relocates [OF wA1] emergencyLoop_skips [OF wt49] len A2_def)
  have c22: "roadState (recycleRoadSegments w' 11000) (A2 @ t49 @ B1 @ R0) 11490 (Suc 0) 22"
    if "roadState w' (A1 @ t49 @ B1 @ R0) 11000 0 22" for w'
    by (rule recycle_emergency_state [OF that _ _ _ e22]) simp_all
  have "roadState (worldUpdate (maxSpeedDrive 21) MAX_SPEED 11000)
          (A2 @ t49 @ B1 @ R0) 11490 1 (Suc 21)"
    by (rule frame_distance_only [OF st21]) (simp_all add: c22)
  then have st22: "roadState (maxSpeedDrive 22) (A2 @ t49 @ B1 @ R0) 11490 1 22"
    by (simp add: md)
  txt \<open>Frame 23: the emergency pass recycles the one segment left behind.\<close>
  have e23: "emergencyLoop 50 (A2 @ t49 @ B1 @ R0) 11500 11490 = (A2 @ u49 @ B1 @ R0, 11500)"
    by (simp add: emergencyLoop_skips [OF wA2] emergencyLoop_relocates [OF wt49] len u49_def)
  have c23: "roadState (recycleRoadSegments w' 11500) (A2 @ u49 @ B1 @ R0) 11500 2 23"
    if "roadState w' (A2 @ t49 @ B1 @ R0) 11490 1 23" for w'
    by (rule recycle_emergency_state [OF that _ _ _ e23]) simp_all
  have "roadState (worldUpdate (maxSpeedDrive 22) MAX_SPEED 11500)
          (A2 @ u49 @ B1 @ R0) 11500 2 (Suc 22)"
    by (rule frame_distance_only [OF st22]) (simp_all add: c23)
  then have st23: "roadState (maxSpeedDrive 23) (A2 @ u49 @ B1 @ R0) 11500 2 23"
    by (simp add: md)
  txt \<open>Frame 24: 49 segments once more, and a second pass that finds nothing.\<close>
  have e24: "emergencyLoop 50 (A2 @ u49 @ B1 @ R0) 12000 11500 = (A3 @ u49 @ B1 @ R0, 11990)"
    by (simp add: emergencyLoop_relocates [OF wA2] emergencyLoop_skips [OF wu49] len A3_def)
  have e24': "emergencyLoop 50 (A3 @ u49 @ B1 @ R0) 12000 11990 = (A3 @ u49 @ B1 @ R0, 11990)"
    by (simp add: emergencyLoop_skips [OF wA3] emergencyLoop_skips [OF wu49] len)
  have c24: "roadState (recycleRoadSegments w' 12000) (A3 @ u49 @ B1 @ R0) 11990 3 24"
    if "roadState w' (A2 @ u49 @ B1 @ R0) 11500 2 24" for w'
    by (rule recycle_emergency_state [OF that _ _ _ e24]) simp_all
  have c24': "roadState (recycleRoadSegments w' 12000) (A3 @ u49 @ B1 @ R0) 11990 4 24"
    if "roadState w' (A3 @ u49 @ B1 @ R0) 11990 3 24" for w'
    by (rule recycle_emergency_state [OF that _ _ _ e24']) simp_all
  have "roadState (worldUpdate (maxSpeedDrive 23) MAX_SPEED 12000)
          (A3 @ u49 @ B1 @ R0) 11990 4 (Suc 23)"
    by (rule frame_distance_and_third [OF st23, where ?segs1.0 = "A3 @ u49 @ B1 @ R0"
          and ?zmax1.0 = 11990 and ?lrf1.0 = 3])
       (simp_all add: c24 c24' fast)
  then have st24: "roadState (maxSpeedDrive 24) (A3 @ u49 @ B1 @ R0) 11990 4 24"
    by (simp add: md)
  show ?thesis
    using st24 by (simp add: roadState_def MAX_SPEED_def)
qed

end
